theory Spec2Isabelle
  imports Main "HOL-Library.Sublist"
begin

section \<open>The packaging script \<^verbatim>\<open>package_extension.py\<close>\<close>

subsection \<open>Module configuration\<close>

text \<open>
  The module-level constants of the script, gathered in one record so that a theorem can
  say which of them a function reads. \<open>module_config\<close> holds the values the
  script assigns.
\<close>

record config =
  SOURCE_DIR :: string
  OUTPUT_DIR :: string
  EXTENSION_NAME :: string
  INCLUDE_PATTERNS :: "string list"
  EXCLUDE_PATTERNS :: "string list"

definition module_config :: config where
  "module_config =
     \<lparr> SOURCE_DIR = ''bookmark-folder-organizer'',
       OUTPUT_DIR = ''dist'',
       EXTENSION_NAME = ''bookmark-folder-organizer'',
       INCLUDE_PATTERNS =
         [''manifest.json'', ''popup.html'', ''popup.css'', ''popup.js'', ''README.md'',
          ''services/*.js'', ''icons/*.png''],
       EXCLUDE_PATTERNS =
         [''*.test.js'', ''*.test.md'', ''.gitkeep'', ''node_modules'', ''.git'',
          ''.DS_Store'', ''Thumbs.db''] \<rparr>"

subsection \<open>\<^verbatim>\<open>should_include\<close>\<close>

text \<open>
  Python's \<^verbatim>\<open>pattern in file_path\<close> is \<^const>\<open>sublist\<close> (a contiguous
  run), \<^verbatim>\<open>file_path.endswith(s)\<close> is \<^const>\<open>suffix\<close>, and
  \<^verbatim>\<open>pattern.replace('*', '')\<close> deletes every star of the pattern.
\<close>

definition replace_star :: "string \<Rightarrow> string" where
  "replace_star pattern = filter (\<lambda>c. c \<noteq> CHR ''*'') pattern"

text \<open>The \<^verbatim>\<open>for\<close> loop over the exclude patterns, leaving at the first hit.\<close>

fun exclude_loop :: "string list \<Rightarrow> string \<Rightarrow> bool" where
  "exclude_loop [] file_path = True"
| "exclude_loop (pattern # patterns) file_path =
     (if sublist pattern file_path \<or> suffix (replace_star pattern) file_path then False
      else exclude_loop patterns file_path)"

definition should_include :: "config \<Rightarrow> string \<Rightarrow> bool" where
  "should_include cfg file_path = exclude_loop (EXCLUDE_PATTERNS cfg) file_path"

subsection \<open>Paths: \<^verbatim>\<open>os.path\<close> on a POSIX system\<close>

text \<open>
  \<^verbatim>\<open>os.path.join(a, b)\<close>: an absolute \<open>b\<close> replaces \<open>a\<close>; otherwise the two are
  glued with one separator, unless \<open>a\<close> is empty or already ends with one.
\<close>

definition path_join :: "string \<Rightarrow> string \<Rightarrow> string" where
  "path_join a b =
     (if prefix ''/'' b then b
      else if a = [] \<or> suffix ''/'' a then a @ b
      else a @ ''/'' @ b)"

text \<open>\<^verbatim>\<open>path.split('/')\<close>: the pieces between separators, empty pieces kept.\<close>

fun split_sep :: "string \<Rightarrow> string list" where
  "split_sep [] = [[]]"
| "split_sep (c # cs) =
     (if c = CHR ''/'' then [] # split_sep cs
      else (case split_sep cs of [] \<Rightarrow> [[c]] | x # xs \<Rightarrow> (c # x) # xs))"

text \<open>
  One round of the loop of \<^verbatim>\<open>normpath\<close> over the pieces: empty pieces and
  \<^verbatim>\<open>.\<close> are dropped, \<^verbatim>\<open>..\<close> removes the piece before it (and is kept at
  the front of a relative path, dropped at the root of an absolute one).
\<close>

definition norm_step :: "bool \<Rightarrow> string list \<Rightarrow> string \<Rightarrow> string list" where
  "norm_step initial_slashes new_comps piece =
     (if piece = [] \<or> piece = ''.'' then new_comps
      else if piece \<noteq> ''..'' \<or> (\<not> initial_slashes \<and> new_comps = [])
               \<or> (new_comps \<noteq> [] \<and> last new_comps = ''..'')
        then new_comps @ [piece]
      else if new_comps \<noteq> [] then butlast new_comps
      else new_comps)"

text \<open>
  The non-empty pieces of \<^verbatim>\<open>os.path.abspath(path)\<close>, which is
  \<^verbatim>\<open>normpath(join(os.getcwd(), path))\<close> for a relative path. \<^verbatim>\<open>normpath\<close>
  answers \<^verbatim>\<open>.\<close> when a relative path has no piece left.
\<close>

definition abspath_parts :: "string \<Rightarrow> string \<Rightarrow> string list" where
  "abspath_parts cwd_now path =
     (let p = (if prefix ''/'' path then path else path_join cwd_now path);
          comps = foldl (norm_step (prefix ''/'' p)) [] (split_sep p)
      in if comps = [] \<and> \<not> prefix ''/'' p then [''.''] else comps)"

fun commonprefix :: "'a list \<Rightarrow> 'a list \<Rightarrow> 'a list" where
  "commonprefix (x # xs) (y # ys) = (if x = y then x # commonprefix xs ys else [])"
| "commonprefix _ _ = []"

text \<open>
  \<^verbatim>\<open>os.path.relpath(path, start)\<close>: both are made absolute, the common leading pieces
  are dropped, and one \<^verbatim>\<open>..\<close> is written for every piece of \<open>start\<close> that is left.
  (It raises on an empty \<open>path\<close>; the script only passes paths that begin with the
  source directory's name.)
\<close>

definition relpath :: "string \<Rightarrow> string \<Rightarrow> string \<Rightarrow> string" where
  "relpath cwd_now path start =
     (let start_list = abspath_parts cwd_now start;
          path_list = abspath_parts cwd_now path;
          i = length (commonprefix start_list path_list);
          rel_list = replicate (length start_list - i) ''..'' @ drop i path_list
      in case rel_list of [] \<Rightarrow> ''.'' | r # rs \<Rightarrow> foldl path_join r rs)"

subsection \<open>The source tree and \<^verbatim>\<open>os.walk\<close>\<close>

text \<open>
  A directory holds named entries in the order \<^verbatim>\<open>scandir\<close> reports them, and a flag
  saying whether it can be listed at all. \<^verbatim>\<open>os.walk\<close> is called with its defaults:
  top-down, and with no \<^verbatim>\<open>onerror\<close> handler, so a directory that cannot be listed
  is passed over in silence.
\<close>

datatype node = File | Dir bool "(string \<times> node) list"

fun is_dir :: "node \<Rightarrow> bool" where
  "is_dir File = False"
| "is_dir (Dir _ _) = True"

fun walk :: "string \<Rightarrow> node \<Rightarrow> (string \<times> string list \<times> string list) list" where
  "walk top_path File = []"
| "walk top_path (Dir listable es) =
     (if \<not> listable then []
      else (top_path, map fst (filter (\<lambda>e. is_dir (snd e)) es),
                      map fst (filter (\<lambda>e. \<not> is_dir (snd e)) es))
           # concat (map (\<lambda>e. walk (path_join top_path (fst e)) (snd e))
                         (filter (\<lambda>e. is_dir (snd e)) es)))"

subsection \<open>Exceptions, the manifest, console lines\<close>

datatype exn =
    OSError string
  | JSONDecodeError string
  | UnicodeDecodeError string
  | AttributeError string

fun str_exn :: "exn \<Rightarrow> string" where
  "str_exn (OSError m) = m"
| "str_exn (JSONDecodeError m) = m"
| "str_exn (UnicodeDecodeError m) = m"
| "str_exn (AttributeError m) = m"

text \<open>
  What \<^verbatim>\<open>json.load\<close> returns: a dictionary, or a value of another Python type (given by
  the type's name). A value in the dictionary is a string, or something else, given by
  the text \<^verbatim>\<open>str()\<close> makes of it.
\<close>

datatype jvalue = JString string | JOther string

datatype jdoc = JObject "string \<rightharpoonup> jvalue" | JNotObject string

fun py_str :: "jvalue \<Rightarrow> string" where
  "py_str (JString s) = s"
| "py_str (JOther s) = s"

definition QUOTE :: string where
  "QUOTE = [CHR 0x27]"

text \<open>\<^verbatim>\<open>manifest.get(key, default)\<close>; only a dictionary has the method.\<close>

fun dict_get :: "jdoc \<Rightarrow> string \<Rightarrow> jvalue \<Rightarrow> exn + jvalue" where
  "dict_get (JObject d) key dflt = Inr (case d key of None \<Rightarrow> dflt | Some v \<Rightarrow> v)"
| "dict_get (JNotObject ty) key dflt =
     Inl (AttributeError (QUOTE @ ty @ QUOTE @ '' object has no attribute ''
                          @ QUOTE @ ''get'' @ QUOTE))"

text \<open>
  One element per call of \<^verbatim>\<open>print\<close>. \<open>SizeKB n\<close> stands for the line
  \<^verbatim>\<open>Size: {n / 1024:.2f} KB\<close>, whose digits come from floating-point formatting.
\<close>

datatype line = Text string | SizeKB nat

definition CHECK_MARK :: string where
  "CHECK_MARK = [CHR 0xE2, CHR 0x9C, CHR 0x93]"

definition CROSS_MARK :: string where
  "CROSS_MARK = [CHR 0xE2, CHR 0x9C, CHR 0x97]"

definition NEWLINE :: string where
  "NEWLINE = [CHR 0x0A]"

text \<open>\<^verbatim>\<open>str(n)\<close> for a count.\<close>

function str_nat :: "nat \<Rightarrow> string" where
  "str_nat n = (if n < 10 then [''0123456789'' ! n]
                else str_nat (n div 10) @ [''0123456789'' ! (n mod 10)])"
  by pat_completeness auto
termination
  by (relation "measure (\<lambda>n. n)") auto

declare str_nat.simps [simp del]

subsection \<open>The world the script runs in\<close>

text \<open>
  An archive file on disk: the entries written so far (archive name and the file it was
  read from), and whether the closing record of the ZIP format has been written.
\<close>

record archive =
  entries :: "(string \<times> string) list"
  finalized :: bool

text \<open>
  The first nine fields are what the run meets and never changes: the working
  directory, what the source directory's name refers to, what opening and parsing the
  manifest gives, which files cannot be read, the failures of the calls that touch the
  output side, and the clock. The last four are what the run changes.
\<close>

record world =
  cwd :: string
  source :: "node option"
  manifest_content :: "exn + jdoc"
  read_error :: "string \<Rightarrow> exn option"
  makedirs_error :: "exn option"
  zip_open_error :: "exn option"
  zip_close_error :: "exn option"
  getsize_result :: "exn + nat"
  now :: string
  out_dir_exists :: bool
  disk :: "string \<rightharpoonup> archive"
  handles :: "string list"
  stdout :: "line list"

definition print :: "line \<Rightarrow> world \<Rightarrow> world" where
  "print ln w = w\<lparr>stdout := stdout w @ [ln]\<rparr>"

definition acquire :: "string \<Rightarrow> world \<Rightarrow> world" where
  "acquire path w = w\<lparr>handles := path # handles w\<rparr>"

definition release :: "string \<Rightarrow> world \<Rightarrow> world" where
  "release path w = w\<lparr>handles := remove1 path (handles w)\<rparr>"

text \<open>\<^verbatim>\<open>os.path.exists(SOURCE_DIR)\<close>.\<close>

definition source_exists :: "world \<Rightarrow> bool" where
  "source_exists w = (source w \<noteq> None)"

text \<open>What \<^verbatim>\<open>os.path.join(SOURCE_DIR, "manifest.json")\<close> refers to.\<close>

definition manifest_node :: "world \<Rightarrow> node option" where
  "manifest_node w =
     (case source w of
        Some (Dir listable es) \<Rightarrow> map_of es ''manifest.json''
      | _ \<Rightarrow> None)"

definition manifest_exists :: "world \<Rightarrow> bool" where
  "manifest_exists w = (manifest_node w \<noteq> None)"

text \<open>\<^verbatim>\<open>os.makedirs(OUTPUT_DIR, exist_ok=True)\<close>.\<close>

definition makedirs :: "world \<Rightarrow> exn option \<times> world" where
  "makedirs w =
     (case makedirs_error w of
        Some e \<Rightarrow> (Some e, w)
      | None \<Rightarrow> (None, w\<lparr>out_dir_exists := True\<rparr>))"

text \<open>
  The \<^verbatim>\<open>with open(manifest_path, ...) as f\<close> block: parse the file, ask the result
  for its version. The file is closed on every way out.
\<close>

definition read_version :: "string \<Rightarrow> world \<Rightarrow> (exn + jvalue) \<times> world" where
  "read_version manifest_path w =
     (case manifest_node w of
        None \<Rightarrow>
          (Inl (OSError (''[Errno 2] No such file or directory: ''
                         @ QUOTE @ manifest_path @ QUOTE)), w)
      | Some (Dir listable es) \<Rightarrow>
          (Inl (OSError (''[Errno 21] Is a directory: '' @ QUOTE @ manifest_path @ QUOTE)), w)
      | Some File \<Rightarrow>
          (let w1 = acquire manifest_path w;
               r = (case manifest_content w1 of
                      Inl e \<Rightarrow> Inl e
                    | Inr manifest \<Rightarrow> dict_get manifest ''version'' (JString ''1.0.0''))
           in (r, release manifest_path w1)))"

subsection \<open>Writing the archive\<close>

definition archive_at :: "world \<Rightarrow> string \<Rightarrow> archive" where
  "archive_at w path =
     (case disk w path of None \<Rightarrow> \<lparr>entries = [], finalized = False\<rparr> | Some a \<Rightarrow> a)"

text \<open>\<^verbatim>\<open>zipfile.ZipFile(output_path, 'w', ...)\<close>: creates or truncates the file.\<close>

definition zip_open :: "string \<Rightarrow> world \<Rightarrow> exn option \<times> world" where
  "zip_open output_path w =
     (case zip_open_error w of
        Some e \<Rightarrow> (Some e, w)
      | None \<Rightarrow>
          (None, acquire output_path
                   (w\<lparr>disk := (disk w)(output_path \<mapsto> \<lparr>entries = [], finalized = False\<rparr>)\<rparr>)))"

text \<open>\<^verbatim>\<open>zipf.write(file_path, arcname)\<close>.\<close>

definition zip_write :: "string \<Rightarrow> string \<Rightarrow> string \<Rightarrow> world \<Rightarrow> exn option \<times> world" where
  "zip_write output_path file_path arcname w =
     (case read_error w file_path of
        Some e \<Rightarrow> (Some e, w)
      | None \<Rightarrow>
          (let a = archive_at w output_path
           in (None, w\<lparr>disk := (disk w)(output_path \<mapsto>
                          a\<lparr>entries := entries a @ [(arcname, file_path)]\<rparr>)\<rparr>)))"

text \<open>
  Leaving the \<^verbatim>\<open>with\<close> block closes the archive: the closing record is written,
  and the file handle is given back whether or not that succeeds.
\<close>

definition zip_close :: "string \<Rightarrow> world \<Rightarrow> exn option \<times> world" where
  "zip_close output_path w =
     (case zip_close_error w of
        Some e \<Rightarrow> (Some e, release output_path w)
      | None \<Rightarrow>
          (None, release output_path
                   (w\<lparr>disk := (disk w)(output_path \<mapsto>
                          (archive_at w output_path)\<lparr>finalized := True\<rparr>)\<rparr>)))"

text \<open>The inner loop \<^verbatim>\<open>for file in files\<close>.\<close>

fun add_files ::
  "config \<Rightarrow> string \<Rightarrow> string \<Rightarrow> string list \<Rightarrow> nat \<times> world \<Rightarrow> exn option \<times> nat \<times> world" where
  "add_files cfg output_path root [] (file_count, w) = (None, file_count, w)"
| "add_files cfg output_path root (file # files) (file_count, w) =
     (let file_path = path_join root file in
      if should_include cfg file_path then
        (let arcname = relpath (cwd w) file_path (SOURCE_DIR cfg) in
         case zip_write output_path file_path arcname w of
           (Some e, w1) \<Rightarrow> (Some e, file_count, w1)
         | (None, w1) \<Rightarrow>
             add_files cfg output_path root files
               (file_count + 1,
                print (Text (''  '' @ CHECK_MARK @ '' Added: '' @ arcname)) w1))
      else
        add_files cfg output_path root files
          (file_count,
           print (Text (''  '' @ CROSS_MARK @ '' Skipped: ''
                        @ relpath (cwd w) file_path (SOURCE_DIR cfg))) w))"

text \<open>The outer loop \<^verbatim>\<open>for root, dirs, files in os.walk(SOURCE_DIR)\<close>.\<close>

fun walk_loop ::
  "config \<Rightarrow> string \<Rightarrow> (string \<times> string list \<times> string list) list \<Rightarrow> nat \<times> world
     \<Rightarrow> exn option \<times> nat \<times> world" where
  "walk_loop cfg output_path [] (file_count, w) = (None, file_count, w)"
| "walk_loop cfg output_path ((root, dirs, files) # rest) (file_count, w) =
     (case add_files cfg output_path root files (file_count, w) of
        (Some e, n1, w1) \<Rightarrow> (Some e, n1, w1)
      | (None, n1, w1) \<Rightarrow> walk_loop cfg output_path rest (n1, w1))"

definition source_walk :: "config \<Rightarrow> world \<Rightarrow> (string \<times> string list \<times> string list) list" where
  "source_walk cfg w =
     (case source w of None \<Rightarrow> [] | Some n \<Rightarrow> walk (SOURCE_DIR cfg) n)"

text \<open>
  The \<^verbatim>\<open>with zipfile.ZipFile(...) as zipf\<close> block. When the body raises, the archive
  is closed before the exception goes on; an exception of the closing itself takes its
  place.
\<close>

definition write_archive :: "config \<Rightarrow> string \<Rightarrow> world \<Rightarrow> exn option \<times> nat \<times> world" where
  "write_archive cfg output_path w =
     (case zip_open output_path w of
        (Some e, w1) \<Rightarrow> (Some e, 0, w1)
      | (None, w1) \<Rightarrow>
          (case walk_loop cfg output_path (source_walk cfg w1) (0, w1) of
             (r, file_count, w2) \<Rightarrow>
               (case zip_close output_path w2 of
                  (Some e, w3) \<Rightarrow> (Some e, file_count, w3)
                | (None, w3) \<Rightarrow> (r, file_count, w3))))"

subsection \<open>\<^verbatim>\<open>create_xpi\<close> and \<^verbatim>\<open>main\<close>\<close>

definition output_filename :: "config \<Rightarrow> jvalue \<Rightarrow> string" where
  "output_filename cfg version = EXTENSION_NAME cfg @ ''-'' @ py_str version @ ''.xpi''"

definition print_header :: "config \<Rightarrow> string \<Rightarrow> jvalue \<Rightarrow> world \<Rightarrow> world" where
  "print_header cfg output_path version w =
     print (Text (''Version: '' @ py_str version @ NEWLINE))
       (print (Text (''Output: '' @ output_path))
         (print (Text (''Source: '' @ SOURCE_DIR cfg @ ''/''))
           (print (Text ''Creating Firefox extension package...'') w)))"

definition summary :: "string \<Rightarrow> nat \<Rightarrow> nat \<Rightarrow> line list" where
  "summary output_path file_size file_count =
     [Text (NEWLINE @ replicate 60 (CHR ''='')),
      Text (CHECK_MARK @ '' Package created successfully!''),
      Text (replicate 60 (CHR ''='')),
      Text (''File: '' @ output_path),
      SizeKB file_size,
      Text (''Files: '' @ str_nat file_count),
      Text (NEWLINE @ ''Next steps:''),
      Text ''1. Test: Load the .xpi in Firefox (about:debugging)'',
      Text ''2. Publish: Upload to addons.mozilla.org'',
      Text ''3. Share: Distribute the .xpi file directly'']"

text \<open>
  \<^verbatim>\<open>create_xpi\<close> returns nothing; the result here is the exception it raises, if
  any. The timestamp is computed where the script computes it, and used nowhere.
\<close>

definition create_xpi :: "config \<Rightarrow> world \<Rightarrow> exn option \<times> world" where
  "create_xpi cfg w =
     (case makedirs w of
        (Some e, w1) \<Rightarrow> (Some e, w1)
      | (None, w1) \<Rightarrow>
          (let manifest_path = path_join (SOURCE_DIR cfg) ''manifest.json'' in
           case read_version manifest_path w1 of
             (Inl e, w2) \<Rightarrow> (Some e, w2)
           | (Inr version, w2) \<Rightarrow>
               (let timestamp = now w2;
                    output_path = path_join (OUTPUT_DIR cfg) (output_filename cfg version);
                    w3 = print_header cfg output_path version w2
                in case write_archive cfg output_path w3 of
                     (Some e, file_count, w4) \<Rightarrow> (Some e, w4)
                   | (None, file_count, w4) \<Rightarrow>
                       (case getsize_result w4 of
                          Inl e \<Rightarrow> (Some e, w4)
                        | Inr file_size \<Rightarrow>
                            (None, w4\<lparr>stdout := stdout w4
                                        @ summary output_path file_size file_count\<rparr>)))))"

definition main :: "config \<Rightarrow> world \<Rightarrow> world" where
  "main cfg w =
     (if \<not> source_exists w then
        print (Text ''Make sure you're running this script from the correct location.'')
          (print (Text (''Error: Source directory '' @ QUOTE @ SOURCE_DIR cfg
                        @ QUOTE @ '' not found!'')) w)
      else if \<not> manifest_exists w then
        print (Text (''Error: manifest.json not found in '' @ QUOTE @ SOURCE_DIR cfg
                     @ QUOTE @ ''!'')) w
      else
        (case create_xpi cfg w of
           (Some e, w1) \<Rightarrow>
             print (Text (NEWLINE @ CROSS_MARK @ '' Error creating package: '' @ str_exn e)) w1
         | (None, w1) \<Rightarrow> w1))"

subsection \<open>What the two loops do, as a function of what they read\<close>

text \<open>
  The loops read the working directory and the files' readability, and write to the
  archive and the console. These functions compute, from what is read, the exception
  raised (if any), the entries appended and the lines printed; \<open>add_files_plan\<close>
  and \<open>walk_loop_plan\<close> below prove that the loops do exactly that.
\<close>

fun files_plan ::
  "config \<Rightarrow> string \<Rightarrow> (string \<Rightarrow> exn option) \<Rightarrow> string \<Rightarrow> string list
     \<Rightarrow> exn option \<times> (string \<times> string) list \<times> line list" where
  "files_plan cfg cwd_now rerr root [] = (None, [], [])"
| "files_plan cfg cwd_now rerr root (file # files) =
     (let file_path = path_join root file;
          rel = relpath cwd_now file_path (SOURCE_DIR cfg) in
      if should_include cfg file_path then
        (case rerr file_path of
           Some e \<Rightarrow> (Some e, [], [])
         | None \<Rightarrow>
             (case files_plan cfg cwd_now rerr root files of
                (r, es, ls) \<Rightarrow>
                  (r, (rel, file_path) # es,
                   Text (''  '' @ CHECK_MARK @ '' Added: '' @ rel) # ls)))
      else
        (case files_plan cfg cwd_now rerr root files of
           (r, es, ls) \<Rightarrow> (r, es, Text (''  '' @ CROSS_MARK @ '' Skipped: '' @ rel) # ls)))"

fun walk_plan ::
  "config \<Rightarrow> string \<Rightarrow> (string \<Rightarrow> exn option) \<Rightarrow> (string \<times> string list \<times> string list) list
     \<Rightarrow> exn option \<times> (string \<times> string) list \<times> line list" where
  "walk_plan cfg cwd_now rerr [] = (None, [], [])"
| "walk_plan cfg cwd_now rerr ((root, dirs, files) # rest) =
     (case files_plan cfg cwd_now rerr root files of
        (Some e, es, ls) \<Rightarrow> (Some e, es, ls)
      | (None, es, ls) \<Rightarrow>
          (case walk_plan cfg cwd_now rerr rest of
             (r, es', ls') \<Rightarrow> (r, es @ es', ls @ ls')))"

text \<open>What the \<^verbatim>\<open>with open(manifest_path)\<close> block yields.\<close>

definition version_result :: "config \<Rightarrow> world \<Rightarrow> exn + jvalue" where
  "version_result cfg w = fst (read_version (path_join (SOURCE_DIR cfg) ''manifest.json'') w)"

definition header :: "config \<Rightarrow> string \<Rightarrow> jvalue \<Rightarrow> line list" where
  "header cfg output_path version =
     [Text ''Creating Firefox extension package...'',
      Text (''Source: '' @ SOURCE_DIR cfg @ ''/''),
      Text (''Output: '' @ output_path),
      Text (''Version: '' @ py_str version @ NEWLINE)]"

definition output_path_of :: "config \<Rightarrow> jvalue \<Rightarrow> string" where
  "output_path_of cfg version = path_join (OUTPUT_DIR cfg) (output_filename cfg version)"

text \<open>The plan of the whole walk of the source directory in a world.\<close>

definition planned :: "config \<Rightarrow> world \<Rightarrow> exn option \<times> (string \<times> string) list \<times> line list" where
  "planned cfg w = walk_plan cfg (cwd w) (read_error w) (source_walk cfg w)"

text \<open>
  The entries a complete walk puts into the archive: for every file the walk reports
  and \<open>should_include\<close> accepts, its path relative to the source directory and the
  path it is read from.
\<close>

definition wanted ::
  "config \<Rightarrow> string \<Rightarrow> (string \<times> string list \<times> string list) list \<Rightarrow> (string \<times> string) list" where
  "wanted cfg cwd_now triples =
     concat (map (\<lambda>(root, dirs, files).
                    map (\<lambda>f. (relpath cwd_now (path_join root f) (SOURCE_DIR cfg),
                              path_join root f))
                        (filter (\<lambda>f. should_include cfg (path_join root f)) files))
                 triples)"

subsection \<open>Notions the statements use\<close>

text \<open>
  Two worlds give a run the same inputs: the same working directory, source tree and
  manifest, and the same outcome of every reading and writing call. The clock, the
  console, the files already on disk and the output directory may differ.
\<close>

definition same_inputs :: "world \<Rightarrow> world \<Rightarrow> bool" where
  "same_inputs w w' =
     (cwd w' = cwd w \<and> source w' = source w \<and> manifest_content w' = manifest_content w
      \<and> read_error w' = read_error w \<and> makedirs_error w' = makedirs_error w
      \<and> zip_open_error w' = zip_open_error w \<and> zip_close_error w' = zip_close_error w
      \<and> getsize_result w' = getsize_result w)"


text \<open>
  Shell-style matching of a name against a pattern in which \<^verbatim>\<open>*\<close> stands for any run
  of characters: what the include patterns would mean. The script has no code for it.
\<close>

fun glob_match :: "string \<Rightarrow> string \<Rightarrow> bool" where
  "glob_match [] s = (s = [])"
| "glob_match (c # p) [] = (c = CHR ''*'' \<and> glob_match p [])"
| "glob_match (c # p) (d # s) =
     (if c = CHR ''*'' then glob_match p (d # s) \<or> glob_match (c # p) s
      else c = d \<and> glob_match p s)"

subsection \<open>Worlds to run the script in\<close>

text \<open>
  The scenario of the specification: a manifest of version 2.1.0 beside
  \<^verbatim>\<open>popup.js\<close>, \<^verbatim>\<open>popup.test.js\<close> and \<^verbatim>\<open>.DS_Store\<close>, and every
  call succeeding.
\<close>

definition scenario_world :: world where
  "scenario_world =
     \<lparr> cwd = ''/home/dev/ext'',
       source = Some (Dir True [(''manifest.json'', File), (''popup.js'', File),
                                (''popup.test.js'', File), (''.DS_Store'', File)]),
       manifest_content = Inr (JObject [''version'' \<mapsto> JString ''2.1.0'']),
       read_error = (\<lambda>p. None),
       makedirs_error = None,
       zip_open_error = None,
       zip_close_error = None,
       getsize_result = Inr 2048,
       now = ''20240101_120000'',
       out_dir_exists = False,
       disk = Map.empty,
       handles = [],
       stdout = [] \<rparr>"

text \<open>The same with a manifest that has no version field.\<close>

definition no_version_world :: world where
  "no_version_world = scenario_world\<lparr>manifest_content := Inr (JObject Map.empty)\<rparr>"

text \<open>No source directory; a source directory without a manifest.\<close>

definition no_source_world :: world where
  "no_source_world = scenario_world\<lparr>source := None\<rparr>"

definition no_manifest_world :: world where
  "no_manifest_world = scenario_world\<lparr>source := Some (Dir True [(''popup.js'', File)])\<rparr>"




text \<open>A source directory with a file that no include pattern mentions.\<close>

definition notes_world :: world where
  "notes_world =
     scenario_world\<lparr>source := Some (Dir True [(''manifest.json'', File),
                                                (''notes.txt'', File)])\<rparr>"

text \<open>
  A source directory that can be entered but not listed (search permission without read
  permission): the manifest in it exists and can be opened.
\<close>

definition unlistable_world :: world where
  "unlistable_world =
     scenario_world\<lparr>source := Some (Dir False [(''manifest.json'', File),
                                                 (''popup.js'', File)])\<rparr>"

section \<open>Properties\<close>

lemma exclude_loop_iff:
  "exclude_loop ps p \<longleftrightarrow> \<not> (\<exists>pat \<in> set ps. sublist pat p \<or> suffix (replace_star pat) p)"
  by (induction ps) auto

subsection \<open>The loops follow their plans\<close>

lemma add_files_plan:
  "disk w p = Some a \<Longrightarrow>
   add_files cfg p root files (n, w) =
     (case files_plan cfg (cwd w) (read_error w) root files of
        (r, es, ls) \<Rightarrow>
          (r, n + length es,
           w\<lparr>disk := (disk w)(p \<mapsto> a\<lparr>entries := entries a @ es\<rparr>),
             stdout := stdout w @ ls\<rparr>))"
proof (induction files arbitrary: n w a)
  case Nil
  show ?case
    apply (simp only: add_files.simps files_plan.simps prod.case list.size append_Nil2 add_0_right)
    apply (simp add: map_upd_triv Nil)
    done
next
  case (Cons f fs)
  let ?fp = "path_join root f"
  let ?rel = "relpath (cwd w) ?fp (SOURCE_DIR cfg)"
  show ?case
  proof (cases "should_include cfg ?fp")
    case False
    let ?w1 = "print (Text (''  '' @ CROSS_MARK @ '' Skipped: '' @ ?rel)) w"
    have d: "disk ?w1 p = Some a" using Cons.prems by (simp add: print_def)
    show ?thesis
      using False Cons.IH [OF d, of n]
      by (simp add: Let_def print_def split: prod.splits)
  next
    case True
    show ?thesis
    proof (cases "read_error w ?fp")
      case (Some e)
      show ?thesis
        using True Some Cons.prems
        apply (simp only: add_files.simps files_plan.simps Let_def if_True zip_write_def
            option.case prod.case list.size append_Nil2 add_0_right)
        apply (simp add: map_upd_triv)
        done
    next
      case None
      let ?a1 = "a\<lparr>entries := entries a @ [(?rel, ?fp)]\<rparr>"
      let ?w1 = "print (Text (''  '' @ CHECK_MARK @ '' Added: '' @ ?rel))
                   (w\<lparr>disk := (disk w)(p \<mapsto> ?a1)\<rparr>)"
      have d: "disk ?w1 p = Some ?a1" by (simp add: print_def)
      show ?thesis
        using True None Cons.prems Cons.IH [OF d, of "n + 1"]
        by (simp add: Let_def print_def zip_write_def archive_at_def fun_upd_def split: prod.splits cong: if_cong)
    qed
  qed
qed

lemma walk_loop_plan:
  "disk w p = Some a \<Longrightarrow>
   walk_loop cfg p triples (n, w) =
     (case walk_plan cfg (cwd w) (read_error w) triples of
        (r, es, ls) \<Rightarrow>
          (r, n + length es,
           w\<lparr>disk := (disk w)(p \<mapsto> a\<lparr>entries := entries a @ es\<rparr>),
             stdout := stdout w @ ls\<rparr>))"
proof (induction triples arbitrary: n w a)
  case Nil
  show ?case
    apply (simp only: walk_loop.simps walk_plan.simps prod.case list.size append_Nil2 add_0_right)
    apply (simp add: map_upd_triv Nil)
    done
next
  case (Cons t triples)
  obtain root dirs files where t: "t = (root, dirs, files)" by (cases t) auto
  obtain r es ls where fp: "files_plan cfg (cwd w) (read_error w) root files = (r, es, ls)"
    by (cases "files_plan cfg (cwd w) (read_error w) root files") auto
  let ?a1 = "a\<lparr>entries := entries a @ es\<rparr>"
  let ?w1 = "w\<lparr>disk := (disk w)(p \<mapsto> ?a1), stdout := stdout w @ ls\<rparr>"
  have af: "add_files cfg p root files (n, w) = (r, n + length es, ?w1)"
    using add_files_plan [OF Cons.prems, of cfg root files n] fp by simp
  show ?case
  proof (cases r)
    case (Some e)
    then show ?thesis using t fp af by (simp add: fun_upd_def)
  next
    case None
    have d: "disk ?w1 p = Some ?a1" by simp
    show ?thesis
      using None t fp af Cons.IH [OF d, of "n + length es"]
      by (simp add: fun_upd_def split: prod.splits cong: if_cong)
  qed
qed

subsection \<open>\<^verbatim>\<open>create_xpi\<close> in closed form\<close>

lemma read_version_eq:
  "read_version (path_join (SOURCE_DIR cfg) ''manifest.json'') w = (version_result cfg w, w)"
  by (simp add: read_version_def version_result_def acquire_def release_def Let_def
      split: option.splits node.splits)

lemma write_archive_eq:
  "write_archive cfg p w =
     (case zip_open_error w of
        Some e \<Rightarrow> (Some e, 0, w)
      | None \<Rightarrow>
          (case walk_plan cfg (cwd w) (read_error w) (source_walk cfg w) of
             (r, es, ls) \<Rightarrow>
               (case zip_close_error w of
                  Some e \<Rightarrow>
                    (Some e, length es,
                     w\<lparr>disk := (disk w)(p \<mapsto> \<lparr>entries = es, finalized = False\<rparr>),
                       stdout := stdout w @ ls\<rparr>)
                | None \<Rightarrow>
                    (r, length es,
                     w\<lparr>disk := (disk w)(p \<mapsto> \<lparr>entries = es, finalized = True\<rparr>),
                       stdout := stdout w @ ls\<rparr>))))"
proof (cases "zip_open_error w")
  case (Some e)
  then show ?thesis by (simp add: write_archive_def zip_open_def)
next
  case None
  let ?a0 = "\<lparr>entries = [], finalized = False\<rparr>"
  let ?w1 = "acquire p (w\<lparr>disk := (disk w)(p \<mapsto> ?a0)\<rparr>)"
  obtain r es ls where wp: "walk_plan cfg (cwd w) (read_error w) (source_walk cfg w) = (r, es, ls)"
    by (cases "walk_plan cfg (cwd w) (read_error w) (source_walk cfg w)") auto
  have d: "disk ?w1 p = Some ?a0" by (simp add: acquire_def)
  have wl: "walk_loop cfg p (source_walk cfg ?w1) (0, ?w1) =
      (r, length es, ?w1\<lparr>disk := (disk ?w1)(p \<mapsto> ?a0\<lparr>entries := entries ?a0 @ es\<rparr>),
                         stdout := stdout ?w1 @ ls\<rparr>)"
    using walk_loop_plan [OF d, of cfg "source_walk cfg w" 0] wp
    by (simp add: source_walk_def acquire_def)
  show ?thesis
    using None wp
    apply (simp only: write_archive_def zip_open_def option.case prod.case wl)
    apply (simp add: zip_close_def release_def acquire_def archive_at_def
        split: option.splits)
    done
qed


lemma print_header_eq:
  "print_header cfg p v w = w\<lparr>stdout := stdout w @ header cfg p v\<rparr>"
  by (simp add: print_header_def header_def print_def)

lemma create_xpi_eq:
  "create_xpi cfg w =
     (case makedirs_error w of
        Some e \<Rightarrow> (Some e, w)
      | None \<Rightarrow>
          (case version_result cfg w of
             Inl e \<Rightarrow> (Some e, w\<lparr>out_dir_exists := True\<rparr>)
           | Inr v \<Rightarrow>
               (case zip_open_error w of
                  Some e \<Rightarrow>
                    (Some e, w\<lparr>out_dir_exists := True,
                                stdout := stdout w @ header cfg (output_path_of cfg v) v\<rparr>)
                | None \<Rightarrow>
                    (case walk_plan cfg (cwd w) (read_error w) (source_walk cfg w) of
                       (r, es, ls) \<Rightarrow>
                         (case zip_close_error w of
                            Some e \<Rightarrow>
                              (Some e,
                               w\<lparr>out_dir_exists := True,
                                 disk := (disk w)(output_path_of cfg v \<mapsto>
                                           \<lparr>entries = es, finalized = False\<rparr>),
                                 stdout := stdout w @ header cfg (output_path_of cfg v) v @ ls\<rparr>)
                          | None \<Rightarrow>
                              (case r of
                                 Some e \<Rightarrow>
                                   (Some e,
                                    w\<lparr>out_dir_exists := True,
                                      disk := (disk w)(output_path_of cfg v \<mapsto>
                                                \<lparr>entries = es, finalized = True\<rparr>),
                                      stdout := stdout w @ header cfg (output_path_of cfg v) v
                                                @ ls\<rparr>)
                               | None \<Rightarrow>
                                   (case getsize_result w of
                                      Inl e \<Rightarrow>
                                        (Some e,
                                         w\<lparr>out_dir_exists := True,
                                           disk := (disk w)(output_path_of cfg v \<mapsto>
                                                     \<lparr>entries = es, finalized = True\<rparr>),
                                           stdout := stdout w
                                                     @ header cfg (output_path_of cfg v) v @ ls\<rparr>)
                                    | Inr sz \<Rightarrow>
                                        (None,
                                         w\<lparr>out_dir_exists := True,
                                           disk := (disk w)(output_path_of cfg v \<mapsto>
                                                     \<lparr>entries = es, finalized = True\<rparr>),
                                           stdout := stdout w
                                                     @ header cfg (output_path_of cfg v) v @ ls
                                                     @ summary (output_path_of cfg v) sz
                                                         (length es)\<rparr>))))))))"
proof -
  have vr: "version_result cfg (w\<lparr>out_dir_exists := True\<rparr>) = version_result cfg w"
    by (simp add: version_result_def read_version_def manifest_node_def acquire_def release_def
        Let_def split: option.splits node.splits)
  have sw: "\<And>l. source_walk cfg (w\<lparr>out_dir_exists := True, stdout := l\<rparr>) = source_walk cfg w"
    by (simp add: source_walk_def)
  show ?thesis
    by (simp add: create_xpi_def makedirs_def read_version_eq vr Let_def print_header_eq
        write_archive_eq sw output_path_of_def
        split: option.splits sum.splits prod.splits)
qed

subsection \<open>Relative paths below the source directory\<close>

lemma split_sep_nonempty: "split_sep s \<noteq> []"
  by (induction s) (auto split: list.splits)

lemma split_sep_append:
  "split_sep (a @ CHR ''/'' # b) = split_sep a @ split_sep b"
  by (induction a) (auto simp: split_sep_nonempty split: list.splits)

lemma split_sep_plain: "CHR ''/'' \<notin> set s \<Longrightarrow> split_sep s = [s]"
  by (induction s) auto

lemma norm_step_empty: "norm_step b acc [] = acc"
  by (simp add: norm_step_def)

lemma norm_step_plain:
  "s \<noteq> [] \<Longrightarrow> s \<noteq> ''.'' \<Longrightarrow> s \<noteq> ''..'' \<Longrightarrow> norm_step b acc s = acc @ [s]"
  by (simp add: norm_step_def)

lemma split_sep_slash_end: "split_sep (a @ ''/'') = split_sep a @ [[]]"
  using split_sep_append [of a "[]"] by simp

lemma norm_join:
  assumes "\<not> prefix ''/'' p"
  shows "foldl (norm_step b) [] (split_sep (path_join c p)) =
         foldl (norm_step b) (foldl (norm_step b) [] (split_sep c)) (split_sep p)"
proof (cases "c = []")
  case True
  then show ?thesis using assms by (simp add: path_join_def norm_step_empty)
next
  case False
  show ?thesis
  proof (cases "suffix ''/'' c")
    case True
    then obtain c' where c: "c = c' @ ''/''" by (auto simp: suffix_def)
    have "path_join c p = c' @ CHR ''/'' # p" using assms c by (simp add: path_join_def)
    then show ?thesis
      by (simp add: c split_sep_append split_sep_slash_end norm_step_empty)
  next
    case no: False
    have "path_join c p = c @ CHR ''/'' # p" using assms False no by (simp add: path_join_def)
    then show ?thesis by (simp add: split_sep_append)
  qed
qed

lemma prefix_slash_join:
  "\<not> prefix ''/'' p \<Longrightarrow> p \<noteq> [] \<Longrightarrow> prefix ''/'' (path_join c p) = prefix ''/'' c"
  by (cases c; cases p) (auto simp: path_join_def)

lemma commonprefix_append: "commonprefix (a @ x) (a @ y) = a @ commonprefix x y"
  by (induction a) auto


lemma abspath_parts_rel:
  assumes "\<not> prefix ''/'' p" "p \<noteq> []"
    and "foldl (norm_step (prefix ''/'' c)) (foldl (norm_step (prefix ''/'' c)) [] (split_sep c))
           (split_sep p) \<noteq> []"
  shows "abspath_parts c p =
         foldl (norm_step (prefix ''/'' c)) (foldl (norm_step (prefix ''/'' c)) [] (split_sep c))
           (split_sep p)"
  using assms by (simp add: abspath_parts_def Let_def prefix_slash_join norm_join)

lemma relpath_child:
  assumes src: "CHR ''/'' \<notin> set src" "src \<noteq> []" "src \<noteq> ''.''" "src \<noteq> ''..''"
    and f: "CHR ''/'' \<notin> set f" "f \<noteq> []" "f \<noteq> ''.''" "f \<noteq> ''..''"
  shows "relpath c (path_join src f) src = f"
proof -
  let ?b = "prefix ''/'' c"
  let ?N = "foldl (norm_step ?b) [] (split_sep c)"
  have nsrc: "\<not> prefix ''/'' src" using src by (cases src) auto
  have nf: "\<not> prefix ''/'' f" using f by (cases f) auto
  have nsuf: "\<not> suffix ''/'' src" using src(1) by (auto simp: suffix_def)
  have pj: "path_join src f = src @ CHR ''/'' # f"
    using nf nsuf src by (simp add: path_join_def)
  have a1: "abspath_parts c src = ?N @ [src]"
    using abspath_parts_rel [of src c] nsrc src
    by (simp add: split_sep_plain norm_step_plain)
  have npj: "\<not> prefix ''/'' (src @ CHR ''/'' # f)" using nsrc src by (cases src) auto
  have a2: "abspath_parts c (path_join src f) = ?N @ [src, f]"
    using abspath_parts_rel [of "src @ CHR ''/'' # f" c] npj src f
    by (simp add: pj split_sep_append split_sep_plain norm_step_plain)
  show ?thesis
    by (simp add: relpath_def a1 a2 Let_def commonprefix_append del: path_join_def)
qed

subsection \<open>Plans that add every file\<close>

lemma files_plan_ok:
  "files_plan cfg c rerr root files = (None, es, ls) \<Longrightarrow>
   es = map (\<lambda>f. (relpath c (path_join root f) (SOURCE_DIR cfg), path_join root f))
            (filter (\<lambda>f. should_include cfg (path_join root f)) files)"
  by (induction files arbitrary: es ls)
     (auto simp: Let_def split: if_splits option.splits prod.splits)

lemma walk_plan_ok:
  "walk_plan cfg c rerr triples = (None, es, ls) \<Longrightarrow> es = wanted cfg c triples"
proof (induction triples arbitrary: es ls)
  case Nil
  then show ?case by (simp add: wanted_def)
next
  case (Cons t triples)
  obtain root dirs files where t: "t = (root, dirs, files)" by (cases t) auto
  show ?case
    using Cons.prems Cons.IH files_plan_ok [of cfg c rerr root files]
    by (auto simp: t wanted_def split: prod.splits option.splits)
qed

subsection \<open>The files of the scenario\<close>

lemma scenario_included:
  "should_include module_config ''bookmark-folder-organizer/manifest.json''"
  "should_include module_config ''bookmark-folder-organizer/popup.js''"
  "\<not> should_include module_config ''bookmark-folder-organizer/popup.test.js''"
  "\<not> should_include module_config ''bookmark-folder-organizer/.DS_Store''"
  by (simp_all add: should_include_def module_config_def replace_star_def
      sublist_code suffix_to_prefix)

lemma scenario_relpath:
  "relpath c ''bookmark-folder-organizer/manifest.json'' ''bookmark-folder-organizer'' = ''manifest.json''"
  "relpath c ''bookmark-folder-organizer/popup.js'' ''bookmark-folder-organizer'' = ''popup.js''"
  "relpath c ''bookmark-folder-organizer/popup.test.js'' ''bookmark-folder-organizer'' = ''popup.test.js''"
  "relpath c ''bookmark-folder-organizer/.DS_Store'' ''bookmark-folder-organizer'' = ''.DS_Store''"
  using relpath_child [of "''bookmark-folder-organizer''" "''manifest.json''" c]
        relpath_child [of "''bookmark-folder-organizer''" "''popup.js''" c]
        relpath_child [of "''bookmark-folder-organizer''" "''popup.test.js''" c]
        relpath_child [of "''bookmark-folder-organizer''" "''.DS_Store''" c]
  by (simp_all add: path_join_def suffix_to_prefix)

lemma scenario_plan:
  "walk_plan module_config c (\<lambda>p. None)
     [(''bookmark-folder-organizer'', [],
       [''manifest.json'', ''popup.js'', ''popup.test.js'', ''.DS_Store''])] =
   (None,
    [(''manifest.json'', ''bookmark-folder-organizer/manifest.json''),
     (''popup.js'', ''bookmark-folder-organizer/popup.js'')],
    [Text (''  '' @ CHECK_MARK @ '' Added: manifest.json''),
     Text (''  '' @ CHECK_MARK @ '' Added: popup.js''),
     Text (''  '' @ CROSS_MARK @ '' Skipped: popup.test.js''),
     Text (''  '' @ CROSS_MARK @ '' Skipped: .DS_Store'')])"
proof -
  have j: "path_join ''bookmark-folder-organizer'' ''manifest.json'' = ''bookmark-folder-organizer/manifest.json''"
    "path_join ''bookmark-folder-organizer'' ''popup.js'' = ''bookmark-folder-organizer/popup.js''"
    "path_join ''bookmark-folder-organizer'' ''popup.test.js'' = ''bookmark-folder-organizer/popup.test.js''"
    "path_join ''bookmark-folder-organizer'' ''.DS_Store'' = ''bookmark-folder-organizer/.DS_Store''"
    by (simp_all add: path_join_def suffix_to_prefix)
  have s: "SOURCE_DIR module_config = ''bookmark-folder-organizer''"
    by (simp add: module_config_def)
  show ?thesis
    by (simp add: j s scenario_included scenario_relpath Let_def del: path_join_def)
qed

subsection \<open>The steps of \<^verbatim>\<open>create_xpi\<close>, one by one\<close>

lemma version_result_eq:
  "version_result cfg w =
     (case manifest_node w of
        None \<Rightarrow>
          Inl (OSError (''[Errno 2] No such file or directory: '' @ QUOTE
                        @ path_join (SOURCE_DIR cfg) ''manifest.json'' @ QUOTE))
      | Some File \<Rightarrow>
          (case manifest_content w of
             Inl e \<Rightarrow> Inl e
           | Inr manifest \<Rightarrow> dict_get manifest ''version'' (JString ''1.0.0''))
      | Some (Dir listable es) \<Rightarrow>
          Inl (OSError (''[Errno 21] Is a directory: '' @ QUOTE
                        @ path_join (SOURCE_DIR cfg) ''manifest.json'' @ QUOTE)))"
  by (simp add: version_result_def read_version_def acquire_def release_def Let_def
      split: option.splits node.splits)

lemma module_output_path:
  "output_path_of module_config v = ''dist/bookmark-folder-organizer-'' @ py_str v @ ''.xpi''"
  by (simp add: output_path_of_def output_filename_def module_config_def path_join_def
      suffix_to_prefix)

lemma module_manifest_path:
  "path_join (SOURCE_DIR module_config) ''manifest.json''
     = ''bookmark-folder-organizer/manifest.json''"
  by (simp add: module_config_def path_join_def suffix_to_prefix)

lemma module_read_version:
  "read_version ''bookmark-folder-organizer/manifest.json'' w
     = (version_result module_config w, w)"
  using read_version_eq [of module_config w] by (simp only: module_manifest_path)

lemma main_eq:
  "source w \<noteq> None \<Longrightarrow> manifest_node w \<noteq> None \<Longrightarrow>
   main cfg w =
     (case create_xpi cfg w of
        (Some e, w1) \<Rightarrow>
          w1\<lparr>stdout := stdout w1
                @ [Text (NEWLINE @ CROSS_MARK @ '' Error creating package: '' @ str_exn e)]\<rparr>
      | (None, w1) \<Rightarrow> w1)"
  by (simp add: main_def source_exists_def manifest_exists_def print_def
      split: prod.splits option.splits)

lemma module_header:
  "header module_config p v =
     [Text ''Creating Firefox extension package...'',
      Text ''Source: bookmark-folder-organizer/'',
      Text (''Output: '' @ p),
      Text (''Version: '' @ py_str v @ NEWLINE)]"
  by (simp add: header_def module_config_def)

lemma create_xpi_no_version:
  "version_result cfg w = Inl e \<Longrightarrow>
   create_xpi cfg w =
     (case makedirs_error w of
        Some e0 \<Rightarrow> (Some e0, w)
      | None \<Rightarrow> (Some e, w\<lparr>out_dir_exists := True\<rparr>))"
  by (simp only: create_xpi_eq sum.case)

lemma create_xpi_makedirs_fails:
  "makedirs_error w = Some e \<Longrightarrow> create_xpi cfg w = (Some e, w)"
  by (simp only: create_xpi_eq option.case)

lemma create_xpi_open_fails:
  "makedirs_error w = None \<Longrightarrow> version_result cfg w = Inr v \<Longrightarrow> zip_open_error w = Some e \<Longrightarrow>
   create_xpi cfg w =
     (Some e, w\<lparr>out_dir_exists := True,
                 stdout := stdout w @ header cfg (output_path_of cfg v) v\<rparr>)"
  by (simp only: create_xpi_eq option.case sum.case)

text \<open>Once the archive is open, the run ends in one of four ways.\<close>

lemma create_xpi_opened:
  assumes "makedirs_error w = None" "version_result cfg w = Inr v" "zip_open_error w = None"
    and pl: "planned cfg w = (r, es, ls)"
  shows "create_xpi cfg w =
     (case zip_close_error w of
        Some e \<Rightarrow> Some e
      | None \<Rightarrow>
          (case r of
             Some e \<Rightarrow> Some e
           | None \<Rightarrow> (case getsize_result w of Inl e \<Rightarrow> Some e | Inr sz \<Rightarrow> None)),
      w\<lparr>out_dir_exists := True,
        disk := (disk w)(output_path_of cfg v \<mapsto>
                  \<lparr>entries = es, finalized = (zip_close_error w = None)\<rparr>),
        stdout := stdout w @ header cfg (output_path_of cfg v) v @ ls
                  @ (case zip_close_error w of
                       Some e \<Rightarrow> []
                     | None \<Rightarrow>
                         (case r of
                            Some e \<Rightarrow> []
                          | None \<Rightarrow>
                              (case getsize_result w of
                                 Inl e \<Rightarrow> []
                               | Inr sz \<Rightarrow> summary (output_path_of cfg v) sz (length es))))\<rparr>)"
proof -
  have wp: "walk_plan cfg (cwd w) (read_error w) (source_walk cfg w) = (r, es, ls)"
    using pl by (simp add: planned_def)
  show ?thesis
    apply (simp only: create_xpi_eq assms(1-3) wp option.case sum.case prod.case)
    apply (simp split: option.splits sum.splits)
    done
qed

lemma create_xpi_disk_elsewhere:
  assumes "version_result cfg w = Inr v" "p \<noteq> output_path_of cfg v"
  shows "disk (snd (create_xpi cfg w)) p = disk w p"
proof (cases "makedirs_error w")
  case (Some e)
  then show ?thesis by (simp add: create_xpi_makedirs_fails)
next
  case None
  show ?thesis
  proof (cases "zip_open_error w")
    case (Some e)
    then show ?thesis using None assms by (simp add: create_xpi_open_fails)
  next
    case no: None
    obtain r es ls where "planned cfg w = (r, es, ls)" by (cases "planned cfg w") auto
    then show ?thesis
      using create_xpi_opened [OF None assms(1) no] assms(2) by simp
  qed
qed

lemma create_xpi_header:
  assumes "makedirs_error w = None" "version_result cfg w = Inr v"
  shows "take (length (stdout w) + 4) (stdout (snd (create_xpi cfg w)))
         = stdout w @ header cfg (output_path_of cfg v) v"
proof (cases "zip_open_error w")
  case (Some e)
  then show ?thesis using assms by (simp add: create_xpi_open_fails header_def)
next
  case None
  obtain r es ls where "planned cfg w = (r, es, ls)" by (cases "planned cfg w") auto
  then show ?thesis
    using create_xpi_opened [OF assms None] by (simp add: header_def)
qed

subsection \<open>The clock\<close>

lemma version_result_now:
  "version_result cfg (w\<lparr>now := t\<rparr>) = version_result cfg w"
  by (simp add: version_result_eq manifest_node_def split: option.splits node.splits)

lemma create_xpi_now:
  "create_xpi cfg (w\<lparr>now := t\<rparr>)
     = (fst (create_xpi cfg w), (snd (create_xpi cfg w))\<lparr>now := t\<rparr>)"
proof -
  have sw: "source_walk cfg (w\<lparr>now := t\<rparr>) = source_walk cfg w"
    by (simp add: source_walk_def)
  show ?thesis
    by (simp add: create_xpi_eq version_result_now sw
        split: option.splits sum.splits prod.splits)
qed

subsection \<open>The run of the scenario\<close>

lemma scenario_create_xpi:
  "create_xpi module_config scenario_world =
      (None,
       scenario_world\<lparr>out_dir_exists := True,
         disk := (disk scenario_world)(''dist/bookmark-folder-organizer-2.1.0.xpi'' \<mapsto>
            \<lparr>entries = [(''manifest.json'', ''bookmark-folder-organizer/manifest.json''),
                        (''popup.js'', ''bookmark-folder-organizer/popup.js'')],
             finalized = True\<rparr>),
         stdout := stdout scenario_world
           @ header module_config ''dist/bookmark-folder-organizer-2.1.0.xpi'' (JString ''2.1.0'')
           @ [Text (''  '' @ CHECK_MARK @ '' Added: manifest.json''),
              Text (''  '' @ CHECK_MARK @ '' Added: popup.js''),
              Text (''  '' @ CROSS_MARK @ '' Skipped: popup.test.js''),
              Text (''  '' @ CROSS_MARK @ '' Skipped: .DS_Store'')]
           @ summary ''dist/bookmark-folder-organizer-2.1.0.xpi'' 2048 2\<rparr>)"
proof -
  have mn: "manifest_node scenario_world = Some File"
    by (simp add: manifest_node_def scenario_world_def)
  have vr: "version_result module_config scenario_world = Inr (JString ''2.1.0'')"
    by (simp add: version_result_eq mn) (simp add: scenario_world_def)
  have sw: "source_walk module_config scenario_world =
      [(''bookmark-folder-organizer'', [],
        [''manifest.json'', ''popup.js'', ''popup.test.js'', ''.DS_Store''])]"
    by (simp add: source_walk_def scenario_world_def module_config_def)
  have re: "read_error scenario_world = (\<lambda>p. None)"
    by (simp add: scenario_world_def)
  show ?thesis
    apply (simp only: create_xpi_eq vr sw re scenario_plan module_output_path)
    apply (simp add: scenario_world_def numeral_2_eq_2)
    done
qed

lemma scenario_main:
  "main module_config scenario_world = snd (create_xpi module_config scenario_world)"
proof -
  have "source_exists scenario_world" "manifest_exists scenario_world"
    by (simp_all add: source_exists_def manifest_exists_def manifest_node_def
        scenario_world_def)
  then show ?thesis by (simp add: main_def scenario_create_xpi)
qed

lemma scenario_disk:
  "disk (main module_config scenario_world) =
       [''dist/bookmark-folder-organizer-2.1.0.xpi'' \<mapsto>
          \<lparr>entries = [(''manifest.json'', ''bookmark-folder-organizer/manifest.json''),
                      (''popup.js'', ''bookmark-folder-organizer/popup.js'')],
           finalized = True\<rparr>]"
  by (simp only: scenario_main scenario_create_xpi snd_conv) (simp add: scenario_world_def)

subsection \<open>Runs on the same inputs\<close>

lemma same_inputs_refl: "same_inputs w w"
  by (simp add: same_inputs_def)

lemma same_inputs_version: "same_inputs w w' \<Longrightarrow> version_result cfg w' = version_result cfg w"
  by (simp add: same_inputs_def version_result_eq manifest_node_def
      split: option.splits node.splits)

lemma same_inputs_planned: "same_inputs w w' \<Longrightarrow> planned cfg w' = planned cfg w"
  by (simp add: same_inputs_def planned_def source_walk_def)

lemma create_xpi_effect:
  "\<exists>r made m ls. \<forall>w'. same_inputs w w' \<longrightarrow>
     create_xpi cfg w' =
       (r, w'\<lparr>out_dir_exists := (out_dir_exists w' \<or> made), disk := disk w' ++ m,
              stdout := stdout w' @ ls\<rparr>)"
proof (cases "makedirs_error w")
  case (Some e)
  have "\<forall>w'. same_inputs w w' \<longrightarrow>
     create_xpi cfg w' =
       (Some e, w'\<lparr>out_dir_exists := (out_dir_exists w' \<or> False), disk := disk w' ++ Map.empty,
              stdout := stdout w' @ []\<rparr>)"
    using Some by (simp add: same_inputs_def create_xpi_makedirs_fails)
  then show ?thesis by blast
next
  case None
  show ?thesis
  proof (cases "version_result cfg w")
    case (Inl e)
    have "\<forall>w'. same_inputs w w' \<longrightarrow>
       create_xpi cfg w' =
         (Some e, w'\<lparr>out_dir_exists := (out_dir_exists w' \<or> True), disk := disk w' ++ Map.empty,
                stdout := stdout w' @ []\<rparr>)"
    proof (intro allI impI)
      fix w' assume s: "same_inputs w w'"
      have "version_result cfg w' = Inl e" using same_inputs_version [OF s] Inl by simp
      moreover have "makedirs_error w' = None" using s None by (simp add: same_inputs_def)
      ultimately show "create_xpi cfg w' =
         (Some e, w'\<lparr>out_dir_exists := (out_dir_exists w' \<or> True), disk := disk w' ++ Map.empty,
                stdout := stdout w' @ []\<rparr>)"
        by (simp add: create_xpi_no_version)
    qed
    then show ?thesis by blast
  next
    case (Inr v)
    show ?thesis
    proof (cases "zip_open_error w")
      case (Some e)
      have "\<forall>w'. same_inputs w w' \<longrightarrow>
         create_xpi cfg w' =
           (Some e, w'\<lparr>out_dir_exists := (out_dir_exists w' \<or> True),
                  disk := disk w' ++ Map.empty,
                  stdout := stdout w' @ header cfg (output_path_of cfg v) v\<rparr>)"
      proof (intro allI impI)
        fix w' assume s: "same_inputs w w'"
        have "version_result cfg w' = Inr v" using same_inputs_version [OF s] Inr by simp
        moreover have "makedirs_error w' = None" "zip_open_error w' = Some e"
          using s None Some by (simp_all add: same_inputs_def)
        ultimately show "create_xpi cfg w' =
           (Some e, w'\<lparr>out_dir_exists := (out_dir_exists w' \<or> True),
                  disk := disk w' ++ Map.empty,
                  stdout := stdout w' @ header cfg (output_path_of cfg v) v\<rparr>)"
          by (simp add: create_xpi_open_fails)
      qed
      then show ?thesis by blast
    next
      case no: None
      obtain r es ls where pl: "planned cfg w = (r, es, ls)" by (cases "planned cfg w") auto
      let ?r = "case zip_close_error w of
                  Some e \<Rightarrow> Some e
                | None \<Rightarrow>
                    (case r of
                       Some e \<Rightarrow> Some e
                     | None \<Rightarrow> (case getsize_result w of Inl e \<Rightarrow> Some e | Inr sz \<Rightarrow> None))"
      let ?m = "[output_path_of cfg v \<mapsto>
                  \<lparr>entries = es, finalized = (zip_close_error w = None)\<rparr>]"
      let ?ls = "header cfg (output_path_of cfg v) v @ ls
                  @ (case zip_close_error w of
                       Some e \<Rightarrow> []
                     | None \<Rightarrow>
                         (case r of
                            Some e \<Rightarrow> []
                          | None \<Rightarrow>
                              (case getsize_result w of
                                 Inl e \<Rightarrow> []
                               | Inr sz \<Rightarrow> summary (output_path_of cfg v) sz (length es))))"
      have "\<forall>w'. same_inputs w w' \<longrightarrow>
         create_xpi cfg w' =
           (?r, w'\<lparr>out_dir_exists := (out_dir_exists w' \<or> True), disk := disk w' ++ ?m,
                  stdout := stdout w' @ ?ls\<rparr>)"
      proof (intro allI impI)
        fix w' assume s: "same_inputs w w'"
        have a: "version_result cfg w' = Inr v" using same_inputs_version [OF s] Inr by simp
        have b: "makedirs_error w' = None" "zip_open_error w' = None"
          using s None no by (simp_all add: same_inputs_def)
        have c: "planned cfg w' = (r, es, ls)" using same_inputs_planned [OF s] pl by simp
        have d: "zip_close_error w' = zip_close_error w" "getsize_result w' = getsize_result w"
          using s by (simp_all add: same_inputs_def)
        show "create_xpi cfg w' =
           (?r, w'\<lparr>out_dir_exists := (out_dir_exists w' \<or> True), disk := disk w' ++ ?m,
                  stdout := stdout w' @ ?ls\<rparr>)"
          using create_xpi_opened [OF b(1) a b(2) c] unfolding d by simp
      qed
      then show ?thesis by blast
    qed
  qed
qed

lemma main_effect:
  "\<exists>made m ls. \<forall>w'. same_inputs w w' \<longrightarrow>
     main cfg w' =
       w'\<lparr>out_dir_exists := (out_dir_exists w' \<or> made), disk := disk w' ++ m,
           stdout := stdout w' @ ls\<rparr>"
proof (cases "source w = None \<or> manifest_node w = None")
  case True
  let ?ls = "if source w = None
             then [Text (''Error: Source directory '' @ QUOTE @ SOURCE_DIR cfg
                         @ QUOTE @ '' not found!''),
                   Text ''Make sure you're running this script from the correct location.'']
             else [Text (''Error: manifest.json not found in '' @ QUOTE @ SOURCE_DIR cfg
                         @ QUOTE @ ''!'')]"
  have "\<forall>w'. same_inputs w w' \<longrightarrow>
     main cfg w' =
       w'\<lparr>out_dir_exists := (out_dir_exists w' \<or> False), disk := disk w' ++ Map.empty,
           stdout := stdout w' @ ?ls\<rparr>"
    using True
    by (auto simp: same_inputs_def main_def source_exists_def manifest_exists_def
        manifest_node_def print_def)
  then show ?thesis by blast
next
  case False
  obtain r made m ls where e: "\<forall>w'. same_inputs w w' \<longrightarrow>
     create_xpi cfg w' =
       (r, w'\<lparr>out_dir_exists := (out_dir_exists w' \<or> made), disk := disk w' ++ m,
              stdout := stdout w' @ ls\<rparr>)"
    using create_xpi_effect [of w cfg] by blast
  let ?ls = "ls @ (case r of
                     None \<Rightarrow> []
                   | Some x \<Rightarrow>
                       [Text (NEWLINE @ CROSS_MARK @ '' Error creating package: ''
                              @ str_exn x)])"
  have "\<forall>w'. same_inputs w w' \<longrightarrow>
     main cfg w' =
       w'\<lparr>out_dir_exists := (out_dir_exists w' \<or> made), disk := disk w' ++ m,
           stdout := stdout w' @ ?ls\<rparr>"
  proof (intro allI impI)
    fix w' assume s: "same_inputs w w'"
    have src: "source w' \<noteq> None" and mn: "manifest_node w' \<noteq> None"
      using s False by (simp_all add: same_inputs_def manifest_node_def)
    show "main cfg w' =
       w'\<lparr>out_dir_exists := (out_dir_exists w' \<or> made), disk := disk w' ++ m,
           stdout := stdout w' @ ?ls\<rparr>"
      using e s by (cases r) (simp_all add: main_eq [OF src mn])
  qed
  then show ?thesis by blast
qed

subsection \<open>Runs that fail while adding files\<close>





lemma version_needs_manifest:
  "version_result cfg w = Inr v \<Longrightarrow> manifest_node w = Some File \<and> source w \<noteq> None"
  by (auto simp: version_result_eq manifest_node_def split: option.splits node.splits)

subsection \<open>The include patterns\<close>

lemma should_include_ignores_include_patterns:
  "should_include (cfg\<lparr>INCLUDE_PATTERNS := ps\<rparr>) p = should_include cfg p"
  by (simp add: should_include_def)

lemma files_plan_ignores_include_patterns:
  "files_plan (cfg\<lparr>INCLUDE_PATTERNS := ps\<rparr>) c rerr root files
     = files_plan cfg c rerr root files"
  by (induction files)
     (simp_all add: should_include_ignores_include_patterns Let_def
        split: if_splits option.splits)

lemma walk_plan_ignores_include_patterns:
  "walk_plan (cfg\<lparr>INCLUDE_PATTERNS := ps\<rparr>) c rerr triples = walk_plan cfg c rerr triples"
  by (induction triples)
     (auto simp: files_plan_ignores_include_patterns split: prod.splits option.splits)

lemma create_xpi_ignores_include_patterns:
  "create_xpi (cfg\<lparr>INCLUDE_PATTERNS := ps\<rparr>) w = create_xpi cfg w"
proof -
  have a: "source_walk (cfg\<lparr>INCLUDE_PATTERNS := ps\<rparr>) w = source_walk cfg w"
    by (simp add: source_walk_def split: option.splits)
  have b: "\<And>v. output_path_of (cfg\<lparr>INCLUDE_PATTERNS := ps\<rparr>) v = output_path_of cfg v"
    by (simp add: output_path_of_def output_filename_def)
  have c: "\<And>p v. header (cfg\<lparr>INCLUDE_PATTERNS := ps\<rparr>) p v = header cfg p v"
    by (simp add: header_def)
  have d: "version_result (cfg\<lparr>INCLUDE_PATTERNS := ps\<rparr>) w = version_result cfg w"
    by (simp add: version_result_def)
  show ?thesis
    unfolding create_xpi_eq walk_plan_ignores_include_patterns a b c d ..
qed

lemma main_ignores_include_patterns:
  "main (cfg\<lparr>INCLUDE_PATTERNS := ps\<rparr>) w = main cfg w"
  by (simp add: main_def create_xpi_ignores_include_patterns)

subsection \<open>Runs that raise nothing\<close>

text \<open>A run that raises nothing has passed every step.\<close>

lemma create_xpi_success:
  assumes "fst (create_xpi cfg w) = None"
  shows "\<exists>v sz ls.
           makedirs_error w = None \<and> version_result cfg w = Inr v \<and> zip_open_error w = None
           \<and> zip_close_error w = None \<and> getsize_result w = Inr sz
           \<and> planned cfg w = (None, wanted cfg (cwd w) (source_walk cfg w), ls)
           \<and> snd (create_xpi cfg w) =
               w\<lparr>out_dir_exists := True,
                 disk := (disk w)(output_path_of cfg v \<mapsto>
                           \<lparr>entries = wanted cfg (cwd w) (source_walk cfg w),
                            finalized = True\<rparr>),
                 stdout := stdout w @ header cfg (output_path_of cfg v) v @ ls
                           @ summary (output_path_of cfg v) sz
                               (length (wanted cfg (cwd w) (source_walk cfg w)))\<rparr>"
proof -
  have m: "makedirs_error w = None"
    using assms by (cases "makedirs_error w") (simp_all add: create_xpi_makedirs_fails)
  obtain v where vr: "version_result cfg w = Inr v"
    using assms m by (cases "version_result cfg w") (simp_all add: create_xpi_no_version)
  have z: "zip_open_error w = None"
    using assms m vr by (cases "zip_open_error w") (simp_all add: create_xpi_open_fails)
  obtain r es ls where pl: "planned cfg w = (r, es, ls)" by (cases "planned cfg w") auto
  note cx = create_xpi_opened [OF m vr z pl]
  have c: "zip_close_error w = None"
    using assms cx by (cases "zip_close_error w") simp_all
  have r: "r = None" using assms cx c by (cases r) simp_all
  obtain sz where g: "getsize_result w = Inr sz"
    using assms cx c r by (cases "getsize_result w") simp_all
  have es: "es = wanted cfg (cwd w) (source_walk cfg w)"
    using walk_plan_ok [of cfg "cwd w" "read_error w" "source_walk cfg w" es ls] pl r
    by (simp add: planned_def)
  have pl': "planned cfg w = (None, wanted cfg (cwd w) (source_walk cfg w), ls)"
    using pl r es by simp
  have sn: "snd (create_xpi cfg w) =
               w\<lparr>out_dir_exists := True,
                 disk := (disk w)(output_path_of cfg v \<mapsto>
                           \<lparr>entries = wanted cfg (cwd w) (source_walk cfg w),
                            finalized = True\<rparr>),
                 stdout := stdout w @ header cfg (output_path_of cfg v) v @ ls
                           @ summary (output_path_of cfg v) sz
                               (length (wanted cfg (cwd w) (source_walk cfg w)))\<rparr>"
    unfolding cx c r g es by simp
  show ?thesis
    using m vr z c g pl' sn by blast
qed

lemma wanted_Cons:
  "wanted cfg c ((root, dirs, files) # triples) =
     map (\<lambda>f. (relpath c (path_join root f) (SOURCE_DIR cfg), path_join root f))
         (filter (\<lambda>f. should_include cfg (path_join root f)) files)
     @ wanted cfg c triples"
  by (simp add: wanted_def)

lemma wanted_member:
  "(root, dirs, files) \<in> set triples \<Longrightarrow> f \<in> set files \<Longrightarrow>
   should_include cfg (path_join root f) \<Longrightarrow>
   (relpath c (path_join root f) (SOURCE_DIR cfg), path_join root f) \<in> set (wanted cfg c triples)"
proof (induction triples)
  case Nil
  then show ?case by simp
next
  case (Cons t triples)
  obtain root' dirs' files' where t: "t = (root', dirs', files')" by (cases t) auto
  show ?case
  proof (cases "t = (root, dirs, files)")
    case True
    have "(relpath c (path_join root f) (SOURCE_DIR cfg), path_join root f)
      \<in> (\<lambda>f. (relpath c (path_join root f) (SOURCE_DIR cfg), path_join root f))
           ` {f \<in> set files. should_include cfg (path_join root f)}"
      using Cons.prems(2,3) by (intro imageI) simp
    then show ?thesis by (simp add: True wanted_Cons)
  next
    case False
    then have "(root, dirs, files) \<in> set triples" using Cons.prems(1) by simp
    then show ?thesis using Cons.IH Cons.prems(2,3) by (simp add: t wanted_Cons)
  qed
qed

lemma notes_included:
  "should_include module_config ''bookmark-folder-organizer/notes.txt''"
  by (simp add: should_include_def module_config_def replace_star_def
      sublist_code suffix_to_prefix)

lemma notes_create_xpi:
  "fst (create_xpi module_config notes_world) = None"
proof -
  have j: "path_join ''bookmark-folder-organizer'' ''manifest.json'' = ''bookmark-folder-organizer/manifest.json''"
    "path_join ''bookmark-folder-organizer'' ''notes.txt'' = ''bookmark-folder-organizer/notes.txt''"
    by (simp_all add: path_join_def suffix_to_prefix)
  have s: "SOURCE_DIR module_config = ''bookmark-folder-organizer''"
    by (simp add: module_config_def)
  have sw: "source_walk module_config notes_world =
      [(''bookmark-folder-organizer'', [], [''manifest.json'', ''notes.txt''])]"
    by (simp add: source_walk_def notes_world_def module_config_def)
  have re: "read_error notes_world = (\<lambda>p. None)"
    by (simp add: notes_world_def scenario_world_def)
  have "fst (walk_plan module_config (cwd notes_world) (\<lambda>p. None)
     [(''bookmark-folder-organizer'', [], [''manifest.json'', ''notes.txt''])]) = None"
    by (simp add: j s scenario_included notes_included Let_def split: prod.splits)
  then obtain es ls where pl: "planned module_config notes_world = (None, es, ls)"
    unfolding planned_def sw re
    by (cases "walk_plan module_config (cwd notes_world) (\<lambda>p. None)
     [(''bookmark-folder-organizer'', [], [''manifest.json'', ''notes.txt''])]") auto
  have mn: "manifest_node notes_world = Some File"
    by (simp add: manifest_node_def notes_world_def)
  have vr: "version_result module_config notes_world = Inr (JString ''2.1.0'')"
    by (simp add: version_result_eq mn) (simp add: notes_world_def scenario_world_def)
  have ok: "makedirs_error notes_world = None" "zip_open_error notes_world = None"
    "zip_close_error notes_world = None" "getsize_result notes_world = Inr 2048"
    by (simp_all add: notes_world_def scenario_world_def)
  show ?thesis
    using create_xpi_opened [OF ok(1) vr ok(2) pl] by (simp add: ok)
qed

lemma main_success:
  assumes "fst (create_xpi cfg w) = None"
  shows "main cfg w = snd (create_xpi cfg w)"
proof -
  obtain v where "version_result cfg w = Inr v" using create_xpi_success [OF assms] by blast
  then have "source w \<noteq> None" "manifest_node w \<noteq> None"
    using version_needs_manifest by simp_all
  then show ?thesis
    using assms by (cases "create_xpi cfg w") (simp add: main_eq)
qed

lemma manifest_in_walk:
  assumes "source w = Some (Dir True es)" "manifest_node w = Some File"
  shows "\<exists>dirs files rest.
           source_walk cfg w = (SOURCE_DIR cfg, dirs, files) # rest
           \<and> ''manifest.json'' \<in> set files"
proof -
  have "map_of es ''manifest.json'' = Some File"
    using assms by (simp add: manifest_node_def)
  then have "(''manifest.json'', File) \<in> set es" by (rule map_of_SomeD)
  then have "''manifest.json'' \<in> set (map fst (filter (\<lambda>e. \<not> is_dir (snd e)) es))"
    by force
  then show ?thesis using assms(1) by (simp add: source_walk_def)
qed

lemma manifest_join:
  "path_join ''bookmark-folder-organizer'' ''manifest.json''
     = ''bookmark-folder-organizer/manifest.json''"
  by (simp add: path_join_def suffix_to_prefix)

lemma unlistable_create_xpi:
  "create_xpi module_config unlistable_world =
     (None,
      unlistable_world\<lparr>out_dir_exists := True,
        disk := (disk unlistable_world)(''dist/bookmark-folder-organizer-2.1.0.xpi'' \<mapsto>
                  \<lparr>entries = [], finalized = True\<rparr>),
        stdout := stdout unlistable_world
          @ header module_config ''dist/bookmark-folder-organizer-2.1.0.xpi'' (JString ''2.1.0'')
          @ summary ''dist/bookmark-folder-organizer-2.1.0.xpi'' 2048 0\<rparr>)"
proof -
  have mn: "manifest_node unlistable_world = Some File"
    by (simp add: manifest_node_def unlistable_world_def)
  have vr: "version_result module_config unlistable_world = Inr (JString ''2.1.0'')"
    by (simp add: version_result_eq mn) (simp add: unlistable_world_def scenario_world_def)
  have pl: "planned module_config unlistable_world = (None, [], [])"
    by (simp add: planned_def source_walk_def unlistable_world_def)
  have ok: "makedirs_error unlistable_world = None" "zip_open_error unlistable_world = None"
    "zip_close_error unlistable_world = None" "getsize_result unlistable_world = Inr 2048"
    by (simp_all add: unlistable_world_def scenario_world_def)
  show ?thesis
    using create_xpi_opened [OF ok(1) vr ok(2) pl]
    by (simp add: ok module_output_path)
qed

section \<open>The claims\<close>

text \<open>
  C1. For every file path, \<open>should_include\<close> under the script's exclude patterns is
  false exactly when some exclude pattern occurs in the path as a contiguous run of
  characters, or the path ends with that pattern's text with every star removed; a path
  for which neither holds for any pattern gives true.
\<close>

theorem should_include_contract:
  "(should_include module_config file_path = False \<longleftrightarrow>
      (\<exists>pattern \<in> set (EXCLUDE_PATTERNS module_config).
         (\<exists>before after. file_path = before @ pattern @ after)
         \<or> (\<exists>before. file_path = before @ replace_star pattern)))
   \<and> ((\<forall>pattern \<in> set (EXCLUDE_PATTERNS module_config).
          \<not> (\<exists>before after. file_path = before @ pattern @ after)
          \<and> \<not> (\<exists>before. file_path = before @ replace_star pattern))
        \<longrightarrow> should_include module_config file_path = True)"
  unfolding should_include_def exclude_loop_iff sublist_def suffix_def by blast

theorem should_include_contract_witness:
  "should_include module_config ''bookmark-folder-organizer/popup.test.js'' = False
   \<and> should_include module_config ''bookmark-folder-organizer/popup.js'' = True"
proof
  have "''*.test.js'' \<in> set (EXCLUDE_PATTERNS module_config)"
    by (simp add: module_config_def)
  moreover have "''bookmark-folder-organizer/popup.test.js''
      = ''bookmark-folder-organizer/popup'' @ replace_star ''*.test.js''"
    by (simp add: replace_star_def)
  ultimately show "should_include module_config ''bookmark-folder-organizer/popup.test.js'' = False"
    using should_include_contract [of "''bookmark-folder-organizer/popup.test.js''"] by blast
next
  have "\<forall>pattern \<in> set (EXCLUDE_PATTERNS module_config).
          \<not> sublist pattern ''bookmark-folder-organizer/popup.js''
          \<and> \<not> suffix (replace_star pattern) ''bookmark-folder-organizer/popup.js''"
    by (simp add: module_config_def replace_star_def sublist_code suffix_to_prefix)
  then have "\<forall>pattern \<in> set (EXCLUDE_PATTERNS module_config).
          \<not> (\<exists>before after. ''bookmark-folder-organizer/popup.js'' = before @ pattern @ after)
          \<and> \<not> (\<exists>before. ''bookmark-folder-organizer/popup.js'' = before @ replace_star pattern)"
    unfolding sublist_def suffix_def by blast
  then show "should_include module_config ''bookmark-folder-organizer/popup.js'' = True"
    using should_include_contract [of "''bookmark-folder-organizer/popup.js''"] by blast
qed

text \<open>
  C2. In the scenario of the specification (a manifest of version 2.1.0 beside
  \<^verbatim>\<open>popup.js\<close>, \<^verbatim>\<open>popup.test.js\<close> and \<^verbatim>\<open>.DS_Store\<close>) the archive is named
  \<^verbatim>\<open>bookmark-folder-organizer-2.1.0.xpi\<close>, it holds exactly the entries
  \<^verbatim>\<open>manifest.json\<close> and \<^verbatim>\<open>popup.js\<close>, the two other files are reported as
  skipped, and the summary reports 2 files.
\<close>

theorem scenario_package:
  "output_filename module_config (JString ''2.1.0'') = ''bookmark-folder-organizer-2.1.0.xpi''
   \<and> fst (create_xpi module_config scenario_world) = None
   \<and> disk (main module_config scenario_world) =
       [''dist/bookmark-folder-organizer-2.1.0.xpi'' \<mapsto>
          \<lparr>entries = [(''manifest.json'', ''bookmark-folder-organizer/manifest.json''),
                      (''popup.js'', ''bookmark-folder-organizer/popup.js'')],
           finalized = True\<rparr>]
   \<and> stdout (main module_config scenario_world) =
       [Text ''Creating Firefox extension package...'',
        Text ''Source: bookmark-folder-organizer/'',
        Text ''Output: dist/bookmark-folder-organizer-2.1.0.xpi'',
        Text (''Version: 2.1.0'' @ NEWLINE),
        Text (''  '' @ CHECK_MARK @ '' Added: manifest.json''),
        Text (''  '' @ CHECK_MARK @ '' Added: popup.js''),
        Text (''  '' @ CROSS_MARK @ '' Skipped: popup.test.js''),
        Text (''  '' @ CROSS_MARK @ '' Skipped: .DS_Store''),
        Text (NEWLINE @ replicate 60 (CHR ''='')),
        Text (CHECK_MARK @ '' Package created successfully!''),
        Text (replicate 60 (CHR ''='')),
        Text ''File: dist/bookmark-folder-organizer-2.1.0.xpi'',
        SizeKB 2048,
        Text ''Files: 2'',
        Text (NEWLINE @ ''Next steps:''),
        Text ''1. Test: Load the .xpi in Firefox (about:debugging)'',
        Text ''2. Publish: Upload to addons.mozilla.org'',
        Text ''3. Share: Distribute the .xpi file directly'']"
proof -
  have two: "str_nat 2 = ''2''" by (simp add: str_nat.simps)
  have out: "stdout (main module_config scenario_world) =
       [Text ''Creating Firefox extension package...'',
        Text ''Source: bookmark-folder-organizer/'',
        Text ''Output: dist/bookmark-folder-organizer-2.1.0.xpi'',
        Text (''Version: 2.1.0'' @ NEWLINE),
        Text (''  '' @ CHECK_MARK @ '' Added: manifest.json''),
        Text (''  '' @ CHECK_MARK @ '' Added: popup.js''),
        Text (''  '' @ CROSS_MARK @ '' Skipped: popup.test.js''),
        Text (''  '' @ CROSS_MARK @ '' Skipped: .DS_Store''),
        Text (NEWLINE @ replicate 60 (CHR ''='')),
        Text (CHECK_MARK @ '' Package created successfully!''),
        Text (replicate 60 (CHR ''='')),
        Text ''File: dist/bookmark-folder-organizer-2.1.0.xpi'',
        SizeKB 2048,
        Text ''Files: 2'',
        Text (NEWLINE @ ''Next steps:''),
        Text ''1. Test: Load the .xpi in Firefox (about:debugging)'',
        Text ''2. Publish: Upload to addons.mozilla.org'',
        Text ''3. Share: Distribute the .xpi file directly'']"
    apply (simp only: scenario_main scenario_create_xpi snd_conv)
    apply (simp add: scenario_world_def header_def summary_def two module_config_def)
    done
  have name: "output_filename module_config (JString ''2.1.0'')
      = ''bookmark-folder-organizer-2.1.0.xpi''"
    by (simp add: output_filename_def module_config_def)
  show ?thesis
    using name out scenario_disk by (simp add: scenario_create_xpi)
qed

theorem scenario_package_witness:
  "map fst (entries (the (disk (main module_config scenario_world)
                            ''dist/bookmark-folder-organizer-2.1.0.xpi'')))
     = [''manifest.json'', ''popup.js'']
   \<and> Text ''Files: 2'' \<in> set (stdout (main module_config scenario_world))"
  using scenario_package by simp

text \<open>
  C3. When the manifest parses to a dictionary without a \<^verbatim>\<open>version\<close> key, the version
  read is the default \<^verbatim>\<open>1.0.0\<close>, the file name built from it is
  \<^verbatim>\<open>bookmark-folder-organizer-1.0.0.xpi\<close>, and (once the output directory is made) that
  name is what the run announces and the only place where it writes.
\<close>

theorem default_version:
  "manifest_node w = Some File \<Longrightarrow> manifest_content w = Inr (JObject d) \<Longrightarrow>
   d ''version'' = None \<Longrightarrow>
     fst (read_version (path_join (SOURCE_DIR module_config) ''manifest.json'') w)
       = Inr (JString ''1.0.0'')
     \<and> output_filename module_config (JString ''1.0.0'') = ''bookmark-folder-organizer-1.0.0.xpi''
     \<and> (makedirs_error w = None \<longrightarrow>
          take (length (stdout w) + 4) (stdout (snd (create_xpi module_config w))) =
            stdout w @
            [Text ''Creating Firefox extension package...'',
             Text ''Source: bookmark-folder-organizer/'',
             Text ''Output: dist/bookmark-folder-organizer-1.0.0.xpi'',
             Text (''Version: 1.0.0'' @ NEWLINE)])
     \<and> (makedirs_error w = None \<and> zip_open_error w = None \<longrightarrow>
          disk (snd (create_xpi module_config w)) ''dist/bookmark-folder-organizer-1.0.0.xpi''
            \<noteq> None)
     \<and> (\<forall>p. p \<noteq> ''dist/bookmark-folder-organizer-1.0.0.xpi'' \<longrightarrow>
            disk (snd (create_xpi module_config w)) p = disk w p)"
proof -
  assume a: "manifest_node w = Some File" "manifest_content w = Inr (JObject d)"
    "d ''version'' = None"
  have vr: "version_result module_config w = Inr (JString ''1.0.0'')"
    using a by (simp add: version_result_eq)
  have op: "output_path_of module_config (JString ''1.0.0'')
      = ''dist/bookmark-folder-organizer-1.0.0.xpi''"
    by (simp add: module_output_path)
  have c1: "fst (read_version (path_join (SOURCE_DIR module_config) ''manifest.json'') w)
       = Inr (JString ''1.0.0'')"
    by (simp add: read_version_eq vr)
  have c2: "output_filename module_config (JString ''1.0.0'')
      = ''bookmark-folder-organizer-1.0.0.xpi''"
    by (simp add: output_filename_def module_config_def)
  have c3: "makedirs_error w = None \<longrightarrow>
          take (length (stdout w) + 4) (stdout (snd (create_xpi module_config w))) =
            stdout w @
            [Text ''Creating Firefox extension package...'',
             Text ''Source: bookmark-folder-organizer/'',
             Text ''Output: dist/bookmark-folder-organizer-1.0.0.xpi'',
             Text (''Version: 1.0.0'' @ NEWLINE)]"
    using create_xpi_header [OF _ vr] by (simp add: op module_header)
  have c4: "makedirs_error w = None \<and> zip_open_error w = None \<longrightarrow>
          disk (snd (create_xpi module_config w)) ''dist/bookmark-folder-organizer-1.0.0.xpi''
            \<noteq> None"
  proof (intro impI, elim conjE)
    assume m: "makedirs_error w = None" and z: "zip_open_error w = None"
    obtain r es ls where "planned module_config w = (r, es, ls)"
      by (cases "planned module_config w") auto
    then show "disk (snd (create_xpi module_config w))
        ''dist/bookmark-folder-organizer-1.0.0.xpi'' \<noteq> None"
      using create_xpi_opened [OF m vr z] by (simp add: op)
  qed
  have c5: "\<forall>p. p \<noteq> ''dist/bookmark-folder-organizer-1.0.0.xpi'' \<longrightarrow>
            disk (snd (create_xpi module_config w)) p = disk w p"
    using create_xpi_disk_elsewhere [OF vr] by (simp add: op)
  show ?thesis using c1 c2 c3 c4 c5 by blast
qed

theorem default_version_witness:
  "take 4 (stdout (snd (create_xpi module_config no_version_world))) =
     [Text ''Creating Firefox extension package...'',
      Text ''Source: bookmark-folder-organizer/'',
      Text ''Output: dist/bookmark-folder-organizer-1.0.0.xpi'',
      Text (''Version: 1.0.0'' @ NEWLINE)]
   \<and> disk (snd (create_xpi module_config no_version_world))
         ''dist/bookmark-folder-organizer-1.0.0.xpi'' \<noteq> None"
proof -
  have "manifest_node no_version_world = Some File"
    by (simp add: manifest_node_def no_version_world_def scenario_world_def)
  moreover have "manifest_content no_version_world = Inr (JObject Map.empty)"
    by (simp add: no_version_world_def)
  moreover have "makedirs_error no_version_world = None" "zip_open_error no_version_world = None"
    "stdout no_version_world = []"
    by (simp_all add: no_version_world_def scenario_world_def)
  ultimately show ?thesis
    using default_version [of no_version_world Map.empty] by simp
qed

text \<open>
  C4. When the source directory does not exist, or exists without a manifest directly
  inside it, \<open>main\<close> prints its error message and returns; nothing else in the world
  changes: no output directory is made and no archive file is created.
\<close>

theorem missing_source_or_manifest:
  "(source w = None \<longrightarrow>
      main module_config w =
        w\<lparr>stdout := stdout w @
            [Text (''Error: Source directory '' @ QUOTE @ ''bookmark-folder-organizer''
                   @ QUOTE @ '' not found!''),
             Text ''Make sure you're running this script from the correct location.'']\<rparr>)
   \<and> (source w \<noteq> None \<and> manifest_node w = None \<longrightarrow>
      main module_config w =
        w\<lparr>stdout := stdout w @
            [Text (''Error: manifest.json not found in '' @ QUOTE
                   @ ''bookmark-folder-organizer'' @ QUOTE @ ''!'')]\<rparr>)
   \<and> (source w = None \<or> manifest_node w = None \<longrightarrow>
      disk (main module_config w) = disk w
      \<and> out_dir_exists (main module_config w) = out_dir_exists w
      \<and> handles (main module_config w) = handles w)"
  by (simp add: main_def source_exists_def manifest_exists_def print_def module_config_def)

theorem missing_source_or_manifest_witness:
  "stdout (main module_config no_source_world) =
     [Text (''Error: Source directory '' @ QUOTE @ ''bookmark-folder-organizer''
            @ QUOTE @ '' not found!''),
      Text ''Make sure you're running this script from the correct location.'']
   \<and> disk (main module_config no_source_world) = Map.empty
   \<and> stdout (main module_config no_manifest_world) =
     [Text (''Error: manifest.json not found in '' @ QUOTE
            @ ''bookmark-folder-organizer'' @ QUOTE @ ''!'')]
   \<and> disk (main module_config no_manifest_world) = Map.empty
   \<and> out_dir_exists (main module_config no_manifest_world) = False"
proof -
  have s: "source no_source_world = None" "stdout no_source_world = []"
    "disk no_source_world = Map.empty"
    by (simp_all add: no_source_world_def scenario_world_def)
  have m: "source no_manifest_world \<noteq> None" "manifest_node no_manifest_world = None"
    "stdout no_manifest_world = []" "disk no_manifest_world = Map.empty"
    "out_dir_exists no_manifest_world = False"
    by (simp_all add: no_manifest_world_def scenario_world_def manifest_node_def)
  show ?thesis
    using missing_source_or_manifest [of no_source_world]
      missing_source_or_manifest [of no_manifest_world] s m
    by simp
qed



text \<open>
  C6. The archive's file name is the extension name, a hyphen, the manifest's version and
  \<^verbatim>\<open>.xpi\<close>. The clock has no part in the run: with another time the run gives the
  same result and the same world, but for the time. A run that has read version \<open>v\<close>
  creates its archive at \<^verbatim>\<open>dist/bookmark-folder-organizer-v.xpi\<close> and writes nowhere
  else, so two runs that read the same version write to the same file.
\<close>

theorem output_name_without_timestamp:
  "output_filename module_config v = ''bookmark-folder-organizer-'' @ py_str v @ ''.xpi''
   \<and> create_xpi module_config (w\<lparr>now := t\<rparr>)
       = (fst (create_xpi module_config w), (snd (create_xpi module_config w))\<lparr>now := t\<rparr>)
   \<and> (fst (read_version ''bookmark-folder-organizer/manifest.json'' w) = Inr v
        \<and> makedirs_error w = None \<and> zip_open_error w = None \<longrightarrow>
        disk (snd (create_xpi module_config w))
          (''dist/bookmark-folder-organizer-'' @ py_str v @ ''.xpi'') \<noteq> None)
   \<and> (fst (read_version ''bookmark-folder-organizer/manifest.json'' w) = Inr v
        \<and> fst (read_version ''bookmark-folder-organizer/manifest.json'' w') = Inr v \<longrightarrow>
        (\<forall>p. p \<noteq> ''dist/bookmark-folder-organizer-'' @ py_str v @ ''.xpi'' \<longrightarrow>
             disk (snd (create_xpi module_config w)) p = disk w p
             \<and> disk (snd (create_xpi module_config w')) p = disk w' p))"
proof -
  have c1: "output_filename module_config v = ''bookmark-folder-organizer-'' @ py_str v @ ''.xpi''"
    by (simp add: output_filename_def module_config_def)
  have c3: "fst (read_version ''bookmark-folder-organizer/manifest.json'' w) = Inr v
        \<and> makedirs_error w = None \<and> zip_open_error w = None \<longrightarrow>
        disk (snd (create_xpi module_config w))
          (''dist/bookmark-folder-organizer-'' @ py_str v @ ''.xpi'') \<noteq> None"
  proof (intro impI, elim conjE)
    assume vr: "fst (read_version ''bookmark-folder-organizer/manifest.json'' w) = Inr v"
      and m: "makedirs_error w = None" and z: "zip_open_error w = None"
    have vr': "version_result module_config w = Inr v" using vr by (simp add: module_read_version)
    obtain r es ls where "planned module_config w = (r, es, ls)"
      by (cases "planned module_config w") auto
    then show "disk (snd (create_xpi module_config w))
          (''dist/bookmark-folder-organizer-'' @ py_str v @ ''.xpi'') \<noteq> None"
      using create_xpi_opened [OF m vr' z] by (simp add: module_output_path)
  qed
  have c4: "\<And>u. fst (read_version ''bookmark-folder-organizer/manifest.json'' u) = Inr v \<Longrightarrow>
        (\<forall>p. p \<noteq> ''dist/bookmark-folder-organizer-'' @ py_str v @ ''.xpi'' \<longrightarrow>
             disk (snd (create_xpi module_config u)) p = disk u p)"
    using create_xpi_disk_elsewhere [where cfg = module_config and v = v]
    by (simp add: module_read_version module_output_path)
  show ?thesis using c1 create_xpi_now [of module_config t w] c3 c4 [of w] c4 [of w']
    by blast
qed

theorem output_name_without_timestamp_witness:
  "create_xpi module_config (scenario_world\<lparr>now := ''20250615_093000''\<rparr>)
     = (fst (create_xpi module_config scenario_world),
        (snd (create_xpi module_config scenario_world))\<lparr>now := ''20250615_093000''\<rparr>)
   \<and> disk (snd (create_xpi module_config scenario_world))
        ''dist/bookmark-folder-organizer-2.1.0.xpi'' \<noteq> None
   \<and> disk (snd (create_xpi module_config scenario_world))
        ''dist/bookmark-folder-organizer-1.0.0.xpi'' = None"
proof -
  have mn: "manifest_node scenario_world = Some File"
    by (simp add: manifest_node_def scenario_world_def)
  have "version_result module_config scenario_world = Inr (JString ''2.1.0'')"
    by (simp add: version_result_eq mn) (simp add: scenario_world_def)
  then have vr: "fst (read_version ''bookmark-folder-organizer/manifest.json'' scenario_world)
      = Inr (JString ''2.1.0'')"
    by (simp add: module_read_version)
  have ok: "makedirs_error scenario_world = None" "zip_open_error scenario_world = None"
    "disk scenario_world ''dist/bookmark-folder-organizer-1.0.0.xpi'' = None"
    by (simp_all add: scenario_world_def)
  show ?thesis
    using output_name_without_timestamp
      [where v = "JString ''2.1.0''" and w = scenario_world and t = "''20250615_093000''"
         and w' = scenario_world] vr ok
    by simp
qed

text \<open>
  C7. What a run writes and prints is a function of its inputs (working directory,
  source tree, manifest, and the outcome of each call): two runs on the same inputs add
  the same files with the same entries to the disk and print the same lines, whatever
  the clock shows, whatever was on disk and whatever had been printed before. In
  particular a second run right after the first, at a later time, leaves every archive
  as the first run left it and prints the first run's lines again.
\<close>

theorem repeated_runs_agree:
  "(same_inputs w w' \<longrightarrow>
      (\<exists>m ls. disk (main module_config w) = disk w ++ m
             \<and> disk (main module_config w') = disk w' ++ m
             \<and> stdout (main module_config w) = stdout w @ ls
             \<and> stdout (main module_config w') = stdout w' @ ls))
   \<and> disk (main module_config ((main module_config w)\<lparr>now := t\<rparr>))
       = disk (main module_config w)
   \<and> drop (length (stdout (main module_config w)))
        (stdout (main module_config ((main module_config w)\<lparr>now := t\<rparr>)))
       = drop (length (stdout w)) (stdout (main module_config w))"
proof -
  obtain made m ls where e: "\<forall>w'. same_inputs w w' \<longrightarrow>
     main module_config w' =
       w'\<lparr>out_dir_exists := (out_dir_exists w' \<or> made), disk := disk w' ++ m,
           stdout := stdout w' @ ls\<rparr>"
    using main_effect [of w module_config] by blast
  have m1: "main module_config w =
       w\<lparr>out_dir_exists := (out_dir_exists w \<or> made), disk := disk w ++ m,
           stdout := stdout w @ ls\<rparr>"
    using e same_inputs_refl by blast
  let ?w1 = "(main module_config w)\<lparr>now := t\<rparr>"
  have "same_inputs w ?w1"
    by (simp add: m1 same_inputs_def)
  then have m2: "main module_config ?w1 =
       ?w1\<lparr>out_dir_exists := (out_dir_exists ?w1 \<or> made), disk := disk ?w1 ++ m,
           stdout := stdout ?w1 @ ls\<rparr>"
    using e by blast
  have c1: "same_inputs w w' \<longrightarrow>
      (\<exists>m ls. disk (main module_config w) = disk w ++ m
             \<and> disk (main module_config w') = disk w' ++ m
             \<and> stdout (main module_config w) = stdout w @ ls
             \<and> stdout (main module_config w') = stdout w' @ ls)"
  proof
    assume s: "same_inputs w w'"
    have m3: "main module_config w' =
       w'\<lparr>out_dir_exists := (out_dir_exists w' \<or> made), disk := disk w' ++ m,
           stdout := stdout w' @ ls\<rparr>"
      using e s by blast
    show "\<exists>m ls. disk (main module_config w) = disk w ++ m
             \<and> disk (main module_config w') = disk w' ++ m
             \<and> stdout (main module_config w) = stdout w @ ls
             \<and> stdout (main module_config w') = stdout w' @ ls"
      by (rule exI [of _ m], rule exI [of _ ls]) (simp add: m1 m3)
  qed
  have mm: "disk w ++ m ++ m = disk w ++ m"
    by (rule ext) (simp add: map_add_def split: option.splits)
  have c2: "disk (main module_config ?w1) = disk (main module_config w)"
    by (simp only: m2) (simp add: m1 mm)
  have c3: "drop (length (stdout (main module_config w))) (stdout (main module_config ?w1))
       = drop (length (stdout w)) (stdout (main module_config w))"
    by (simp only: m2) (simp add: m1)
  show ?thesis using c1 c2 c3 by blast
qed

theorem repeated_runs_agree_witness:
  "disk (main module_config ((main module_config scenario_world)\<lparr>now := ''20250615_093000''\<rparr>))
     = [''dist/bookmark-folder-organizer-2.1.0.xpi'' \<mapsto>
          \<lparr>entries = [(''manifest.json'', ''bookmark-folder-organizer/manifest.json''),
                      (''popup.js'', ''bookmark-folder-organizer/popup.js'')],
           finalized = True\<rparr>]"
  using repeated_runs_agree [of scenario_world scenario_world "''20250615_093000''"]
    scenario_disk
  by simp




text \<open>
  C9. The include patterns play no part: \<open>should_include\<close> and the whole run are the
  same whatever the list of include patterns is, and in a run that raises nothing every
  file that the walk reports and \<open>should_include\<close> accepts is an entry of the archive.
\<close>

theorem include_patterns_not_consulted:
  "should_include (module_config\<lparr>INCLUDE_PATTERNS := ps\<rparr>) p = should_include module_config p
   \<and> main (module_config\<lparr>INCLUDE_PATTERNS := ps\<rparr>) w = main module_config w
   \<and> (fst (create_xpi (module_config\<lparr>INCLUDE_PATTERNS := ps\<rparr>) w) = None
        \<and> (root, dirs, files) \<in> set (source_walk module_config w) \<and> f \<in> set files
        \<and> should_include module_config (path_join root f)
      \<longrightarrow> (\<exists>p a. disk (main (module_config\<lparr>INCLUDE_PATTERNS := ps\<rparr>) w) p = Some a
               \<and> (relpath (cwd w) (path_join root f) ''bookmark-folder-organizer'',
                   path_join root f) \<in> set (entries a)))"
proof -
  have c3: "fst (create_xpi module_config w) = None
        \<and> (root, dirs, files) \<in> set (source_walk module_config w) \<and> f \<in> set files
        \<and> should_include module_config (path_join root f)
      \<longrightarrow> (\<exists>p a. disk (main module_config w) p = Some a
               \<and> (relpath (cwd w) (path_join root f) ''bookmark-folder-organizer'',
                   path_join root f) \<in> set (entries a))"
  proof (intro impI, elim conjE)
    assume ok: "fst (create_xpi module_config w) = None"
      and t: "(root, dirs, files) \<in> set (source_walk module_config w)" and f: "f \<in> set files"
      and inc: "should_include module_config (path_join root f)"
    obtain v sz ls where vr: "version_result module_config w = Inr v"
      and sn: "snd (create_xpi module_config w) =
               w\<lparr>out_dir_exists := True,
                 disk := (disk w)(output_path_of module_config v \<mapsto>
                           \<lparr>entries = wanted module_config (cwd w) (source_walk module_config w),
                            finalized = True\<rparr>),
                 stdout := stdout w @ header module_config (output_path_of module_config v) v @ ls
                           @ summary (output_path_of module_config v) sz
                               (length (wanted module_config (cwd w)
                                          (source_walk module_config w)))\<rparr>"
      using create_xpi_success [OF ok] by blast
    have src: "source w \<noteq> None" and mn: "manifest_node w \<noteq> None"
      using version_needs_manifest [OF vr] by simp_all
    have mm: "main module_config w = snd (create_xpi module_config w)"
      using ok by (cases "create_xpi module_config w") (simp add: main_eq [OF src mn])
    have mem: "(relpath (cwd w) (path_join root f) ''bookmark-folder-organizer'',
                   path_join root f)
        \<in> set (wanted module_config (cwd w) (source_walk module_config w))"
      using wanted_member [OF t f inc, of "cwd w"] by (simp add: module_config_def)
    have "disk (main module_config w) (output_path_of module_config v)
        = Some \<lparr>entries = wanted module_config (cwd w) (source_walk module_config w),
                finalized = True\<rparr>"
      by (simp only: mm sn) simp
    then show "\<exists>p a. disk (main module_config w) p = Some a
               \<and> (relpath (cwd w) (path_join root f) ''bookmark-folder-organizer'',
                   path_join root f) \<in> set (entries a)"
      using mem by force
  qed
  show ?thesis
    unfolding main_ignores_include_patterns create_xpi_ignores_include_patterns
      should_include_ignores_include_patterns
    using c3 by simp
qed

theorem include_patterns_not_consulted_witness:
  "\<not> list_ex (\<lambda>pat. glob_match pat ''notes.txt''
                     \<or> glob_match pat ''bookmark-folder-organizer/notes.txt'')
        (INCLUDE_PATTERNS module_config)
   \<and> (\<exists>p a. disk (main module_config notes_world) p = Some a
          \<and> (''notes.txt'', ''bookmark-folder-organizer/notes.txt'') \<in> set (entries a))"
proof -
  have g: "\<not> list_ex (\<lambda>pat. glob_match pat ''notes.txt''
                     \<or> glob_match pat ''bookmark-folder-organizer/notes.txt'')
        (INCLUDE_PATTERNS module_config)"
    by (simp add: module_config_def)
  have same: "module_config\<lparr>INCLUDE_PATTERNS := INCLUDE_PATTERNS module_config\<rparr> = module_config"
    by simp
  have t: "(''bookmark-folder-organizer'', [], [''manifest.json'', ''notes.txt''])
      \<in> set (source_walk module_config notes_world)"
    by (simp add: source_walk_def notes_world_def module_config_def)
  have j: "path_join ''bookmark-folder-organizer'' ''notes.txt''
      = ''bookmark-folder-organizer/notes.txt''"
    by (simp add: path_join_def suffix_to_prefix)
  have r: "relpath (cwd notes_world) ''bookmark-folder-organizer/notes.txt''
      ''bookmark-folder-organizer'' = ''notes.txt''"
    using relpath_child [of "''bookmark-folder-organizer''" "''notes.txt''" "cwd notes_world"]
    by (simp add: j)
  have "\<exists>p a. disk (main module_config notes_world) p = Some a
          \<and> (''notes.txt'', ''bookmark-folder-organizer/notes.txt'') \<in> set (entries a)"
    using include_patterns_not_consulted
      [where ps = "INCLUDE_PATTERNS module_config" and w = notes_world
         and root = "''bookmark-folder-organizer''" and dirs = "[]"
         and files = "[''manifest.json'', ''notes.txt'']" and f = "''notes.txt''"]
      t notes_create_xpi notes_included
    by (simp add: same j r del: path_join_def)
  then show ?thesis using g by simp
qed

text \<open>
  C10 (as the code has it). The manifest's path passes \<open>should_include\<close>. In a run that
  raises nothing and whose source directory can be listed, the archive has the entry
  \<^verbatim>\<open>manifest.json\<close>, and the count that the summary reports is the number of
  entries and at least 1.
\<close>

theorem manifest_always_packaged:
  "fst (create_xpi module_config w) = None \<Longrightarrow> source w = Some (Dir True es) \<Longrightarrow>
     should_include module_config ''bookmark-folder-organizer/manifest.json''
     \<and> (\<exists>p a. disk (main module_config w) p = Some a
             \<and> (''manifest.json'', ''bookmark-folder-organizer/manifest.json'') \<in> set (entries a)
             \<and> 1 \<le> length (entries a)
             \<and> Text (''Files: '' @ str_nat (length (entries a)))
                  \<in> set (stdout (main module_config w)))"
proof -
  assume ok: "fst (create_xpi module_config w) = None" and src: "source w = Some (Dir True es)"
  let ?W = "wanted module_config (cwd w) (source_walk module_config w)"
  obtain v sz ls where vr: "version_result module_config w = Inr v"
    and sn: "snd (create_xpi module_config w) =
               w\<lparr>out_dir_exists := True,
                 disk := (disk w)(output_path_of module_config v \<mapsto>
                           \<lparr>entries = ?W, finalized = True\<rparr>),
                 stdout := stdout w @ header module_config (output_path_of module_config v) v @ ls
                           @ summary (output_path_of module_config v) sz (length ?W)\<rparr>"
    using create_xpi_success [OF ok] by blast
  have mn: "manifest_node w = Some File" using version_needs_manifest [OF vr] by simp
  obtain dirs files rest where
    sw: "source_walk module_config w = (SOURCE_DIR module_config, dirs, files) # rest"
    and mf: "''manifest.json'' \<in> set files"
    using manifest_in_walk [OF src mn, of module_config] by blast
  have sd: "SOURCE_DIR module_config = ''bookmark-folder-organizer''"
    by (simp add: module_config_def)
  have inc: "should_include module_config ''bookmark-folder-organizer/manifest.json''"
    by (rule scenario_included(1))
  have t: "(''bookmark-folder-organizer'', dirs, files) \<in> set (source_walk module_config w)"
    by (simp add: sw sd)
  have inc': "should_include module_config
      (path_join ''bookmark-folder-organizer'' ''manifest.json'')"
    using inc by (simp only: manifest_join)
  have mem: "(''manifest.json'', ''bookmark-folder-organizer/manifest.json'') \<in> set ?W"
    using wanted_member [OF t mf inc', of "cwd w"]
    by (simp only: sd manifest_join scenario_relpath(1))
  then have len: "1 \<le> length ?W" by (cases ?W) simp_all
  have d: "disk (main module_config w) (output_path_of module_config v)
      = Some \<lparr>entries = ?W, finalized = True\<rparr>"
    by (simp only: main_success [OF ok] sn) simp
  have out: "Text (''Files: '' @ str_nat (length ?W)) \<in> set (stdout (main module_config w))"
    by (simp only: main_success [OF ok] sn) (simp add: summary_def)
  have ex: "\<exists>p a. disk (main module_config w) p = Some a
             \<and> (''manifest.json'', ''bookmark-folder-organizer/manifest.json'') \<in> set (entries a)
             \<and> 1 \<le> length (entries a)
             \<and> Text (''Files: '' @ str_nat (length (entries a)))
                  \<in> set (stdout (main module_config w))"
  proof (intro exI conjI)
    show "disk (main module_config w) (output_path_of module_config v)
      = Some \<lparr>entries = ?W, finalized = True\<rparr>" by (rule d)
    show "(''manifest.json'', ''bookmark-folder-organizer/manifest.json'')
        \<in> set (entries \<lparr>entries = ?W, finalized = True\<rparr>)"
      using mem by simp
    show "1 \<le> length (entries \<lparr>entries = ?W, finalized = True\<rparr>)"
      using len by simp
    show "Text (''Files: '' @ str_nat (length (entries \<lparr>entries = ?W, finalized = True\<rparr>)))
        \<in> set (stdout (main module_config w))"
      using out by simp
  qed
  show ?thesis by (rule conjI [OF inc ex])
qed

theorem manifest_always_packaged_witness:
  "\<exists>p a. disk (main module_config scenario_world) p = Some a
        \<and> (''manifest.json'', ''bookmark-folder-organizer/manifest.json'') \<in> set (entries a)
        \<and> 1 \<le> length (entries a)
        \<and> Text (''Files: '' @ str_nat (length (entries a)))
             \<in> set (stdout (main module_config scenario_world))"
proof -
  have ok: "fst (create_xpi module_config scenario_world) = None"
    by (simp add: scenario_create_xpi)
  have src: "source scenario_world
      = Some (Dir True [(''manifest.json'', File), (''popup.js'', File),
                        (''popup.test.js'', File), (''.DS_Store'', File)])"
    by (simp add: scenario_world_def)
  show ?thesis
    using manifest_always_packaged [OF ok src] by (rule conjunct2)
qed

theorem unlistable_source_empty_archive:
  "manifest_exists unlistable_world
   \<and> fst (create_xpi module_config unlistable_world) = None
   \<and> disk (main module_config unlistable_world) ''dist/bookmark-folder-organizer-2.1.0.xpi''
       = Some \<lparr>entries = [], finalized = True\<rparr>
   \<and> Text ''Files: 0'' \<in> set (stdout (main module_config unlistable_world))"
proof -
  have ok: "fst (create_xpi module_config unlistable_world) = None"
    by (simp add: unlistable_create_xpi)
  have me: "manifest_exists unlistable_world"
    by (simp add: manifest_exists_def manifest_node_def unlistable_world_def)
  have zero: "str_nat 0 = ''0''" by (simp add: str_nat.simps)
  have d: "disk (main module_config unlistable_world) ''dist/bookmark-folder-organizer-2.1.0.xpi''
       = Some \<lparr>entries = [], finalized = True\<rparr>"
    by (simp only: main_success [OF ok] unlistable_create_xpi snd_conv) simp
  have out: "Text ''Files: 0'' \<in> set (stdout (main module_config unlistable_world))"
    by (simp only: main_success [OF ok] unlistable_create_xpi snd_conv)
       (simp add: summary_def zero)
  show ?thesis using ok me d out by simp
qed

end
